theory Spec2Isabelle
  imports Complex_Main
begin

section \<open>The Spire: data model (src/main.py)\<close>

text \<open>
  Python floats are modelled as exact reals, Python ints as \<open>int\<close>, strings as
  byte strings (non-ASCII symbols of the messages as their UTF-8 bytes). A sector
  object is identified by its position in \<open>sectors\<close>; every function that in the
  source receives or returns a sector object receives or returns that position.
\<close>

datatype SectorType = RESIDENTIAL | FARMS | POWER | INDUSTRIAL | EMPTY

datatype DisasterType = FIRE | COLLAPSE | DISEASE | RIOTS

datatype py_error = IndexError

record Sector =
  level :: int
  sector_type :: SectorType
  health :: real
  workers :: int
  disaster :: "DisasterType option"
  disaster_intensity :: int
  on_fire :: bool
  fire_turns :: int
  unstable :: bool
  quarantined :: bool

record Citizen =
  name :: string
  role :: string
  location :: int
  citizen_alive :: bool

text \<open>
  A dilemma stores two closures over the chosen sector object; the model stores the
  captured sector (\<open>target\<close>, a position) and applies \<open>save_sector\<close> or
  \<open>abandon_sector\<close> to it.
\<close>

record Dilemma =
  title :: string
  description :: string
  option_a :: string
  option_b :: string
  target :: nat

record GameState =
  year :: int
  month :: int
  food :: real
  power :: real
  materials :: real
  population :: int
  morale :: real
  sectors :: "Sector list"
  max_height :: int
  citizens :: "Citizen list"
  events :: "(string \<times> string) list"
  current_dilemma :: "Dilemma option"
  tension :: real
  turns_since_crisis :: int
  alive :: bool
  victory_message :: string
  cursor :: int
  building_mode :: bool

definition type_label :: "SectorType \<Rightarrow> string" where
  "type_label t = (case t of RESIDENTIAL \<Rightarrow> ''Housing'' | FARMS \<Rightarrow> ''Farms''
     | POWER \<Rightarrow> ''Power'' | INDUSTRIAL \<Rightarrow> ''Industry'' | EMPTY \<Rightarrow> ''Empty'')"

definition is_functional :: "Sector \<Rightarrow> bool" where
  "is_functional sec = (health sec > 20 \<and> \<not> on_fire sec)"

definition new_sector :: "int \<Rightarrow> SectorType \<Rightarrow> int \<Rightarrow> Sector" where
  "new_sector l t w = \<lparr>level = l, sector_type = t, health = 100, workers = w,
     disaster = None, disaster_intensity = 0, on_fire = False, fire_turns = 0,
     unstable = False, quarantined = False\<rparr>"

subsection \<open>The random source\<close>

text \<open>
  Python's \<open>random\<close> module is an input of the model: a tape of reals, one consumed
  by each call, its fractional part taken as the uniform draw in [0, 1). An exhausted
  tape draws 0. Every theorem below quantifies over the tape.
\<close>

type_synonym rng = "real list"

definition draw :: "rng \<Rightarrow> real \<times> rng" where
  "draw rs = (case rs of [] \<Rightarrow> (0, []) | r # rs' \<Rightarrow> (r - of_int \<lfloor>r\<rfloor>, rs'))"

definition random_below :: "nat \<Rightarrow> rng \<Rightarrow> nat \<times> rng" where
  "random_below n rs = (let (u, rs') = draw rs in (nat \<lfloor>u * of_nat n\<rfloor>, rs'))"

definition random_random :: "rng \<Rightarrow> real \<times> rng" where
  "random_random rs = draw rs"

definition randint :: "int \<Rightarrow> int \<Rightarrow> rng \<Rightarrow> int \<times> rng" where
  "randint a b rs = (let (u, rs') = draw rs in (a + \<lfloor>u * of_int (b - a + 1)\<rfloor>, rs'))"

definition uniform :: "real \<Rightarrow> real \<Rightarrow> rng \<Rightarrow> real \<times> rng" where
  "uniform a b rs = (let (u, rs') = draw rs in (a + (b - a) * u, rs'))"

definition choice :: "'a list \<Rightarrow> rng \<Rightarrow> py_error + ('a \<times> rng)" where
  "choice xs rs = (if xs = [] then Inl IndexError
     else (let (i, rs') = random_below (length xs) rs in Inr (xs ! i, rs')))"

fun remove_at :: "nat \<Rightarrow> 'a list \<Rightarrow> 'a list" where
  "remove_at i [] = []"
| "remove_at 0 (x # xs) = xs"
| "remove_at (Suc i) (x # xs) = x # remove_at i xs"

fun sample :: "'a list \<Rightarrow> nat \<Rightarrow> rng \<Rightarrow> 'a list \<times> rng" where
  "sample pool 0 rs = ([], rs)"
| "sample pool (Suc k) rs =
     (if pool = [] then ([], rs)
      else (let (i, rs1) = random_below (length pool) rs;
                (rest, rs2) = sample (remove_at i pool) k rs1
            in (pool ! i # rest, rs2)))"

subsection \<open>Formatting\<close>

fun str_nat :: "nat \<Rightarrow> string" where
  "str_nat n = (if n < 10 then [char_of (48 + n)]
     else str_nat (n div 10) @ [char_of (48 + n mod 10)])"

declare str_nat.simps [simp del]

definition str_int :: "int \<Rightarrow> string" where
  "str_int i = (if i < 0 then ''-'' @ str_nat (nat (- i)) else str_nat (nat i))"

text \<open>
  \<open>int(x)\<close> of a float truncates towards zero. The products truncated in the source
  (\<open>population * 0.12\<close>, \<open>population * uniform(0.15, 0.3)\<close>, \<open>refugees * 0.3\<close>) are
  exact here, so a death count can be one above CPython's where the exact product is an
  integer and the float product falls just below it.
\<close>

definition py_int :: "real \<Rightarrow> int" where
  "py_int x = (if 0 \<le> x then \<lfloor>x\<rfloor> else \<lceil>x\<rceil>)"

definition sym_bolt :: string where "sym_bolt = [CHR 0xE2, CHR 0x9A, CHR 0xA1]"
definition sym_warning :: string where
  "sym_warning = [CHR 0xE2, CHR 0x9A, CHR 0xA0, CHR 0xEF, CHR 0xB8, CHR 0x8F]"
definition sym_skull :: string where "sym_skull = [CHR 0xF0, CHR 0x9F, CHR 0x92, CHR 0x80]"
definition sym_collision :: string where "sym_collision = [CHR 0xF0, CHR 0x9F, CHR 0x92, CHR 0xA5]"
definition sym_door :: string where "sym_door = [CHR 0xF0, CHR 0x9F, CHR 0x9A, CHR 0xAA]"
definition sym_trophy :: string where "sym_trophy = [CHR 0xF0, CHR 0x9F, CHR 0x8F, CHR 0x86]"
definition sym_fire :: string where "sym_fire = [CHR 0xF0, CHR 0x9F, CHR 0x94, CHR 0xA5]"
definition sym_globe :: string where "sym_globe = [CHR 0xF0, CHR 0x9F, CHR 0x8C, CHR 0x8D]"
definition sym_microbe :: string where "sym_microbe = [CHR 0xF0, CHR 0x9F, CHR 0xA6, CHR 0xA0]"
definition sym_fist :: string where "sym_fist = [CHR 0xE2, CHR 0x9C, CHR 0x8A]"
definition sym_present :: string where "sym_present = [CHR 0xF0, CHR 0x9F, CHR 0x8E, CHR 0x81]"
definition sym_busts :: string where "sym_busts = [CHR 0xF0, CHR 0x9F, CHR 0x91, CHR 0xA5]"
definition sym_rice :: string where "sym_rice = [CHR 0xF0, CHR 0x9F, CHR 0x8C, CHR 0xBE]"
definition sym_check :: string where "sym_check = [CHR 0xE2, CHR 0x9C, CHR 0x85]"
definition sym_wrench :: string where "sym_wrench = [CHR 0xF0, CHR 0x9F, CHR 0x94, CHR 0xA7]"
definition sym_cross :: string where "sym_cross = [CHR 0xE2, CHR 0x9D, CHR 0x8C]"
definition sym_engine :: string where "sym_engine = [CHR 0xF0, CHR 0x9F, CHR 0x9A, CHR 0x92]"
definition sym_crane :: string where
  "sym_crane = [CHR 0xF0, CHR 0x9F, CHR 0x8F, CHR 0x97, CHR 0xEF, CHR 0xB8, CHR 0x8F]"
definition sym_party :: string where "sym_party = [CHR 0xF0, CHR 0x9F, CHR 0x8E, CHR 0x89]"
definition sym_swords :: string where
  "sym_swords = [CHR 0xE2, CHR 0x9A, CHR 0x94, CHR 0xEF, CHR 0xB8, CHR 0x8F]"

subsection \<open>The event log\<close>

definition add_event :: "string \<Rightarrow> string \<Rightarrow> GameState \<Rightarrow> GameState" where
  "add_event message color s =
     (let es = events s @ [(''Y'' @ str_int (year s) @ ''M'' @ str_int (month s) @ '': '' @ message, color)]
      in s\<lparr>events := (if length es > 50 then tl es else es)\<rparr>)"

definition get_sector :: "GameState \<Rightarrow> int \<Rightarrow> nat option" where
  "get_sector s l =
     (case filter (\<lambda>i. level (sectors s ! i) = l) [0..<length (sectors s)] of
        [] \<Rightarrow> None | i # _ \<Rightarrow> Some i)"

definition upd_sector :: "nat \<Rightarrow> (Sector \<Rightarrow> Sector) \<Rightarrow> GameState \<Rightarrow> GameState" where
  "upd_sector i f s = s\<lparr>sectors := (sectors s)[i := f (sectors s ! i)]\<rparr>"

definition set_health :: "real \<Rightarrow> Sector \<Rightarrow> Sector" where
  "set_health h sec = sec\<lparr>health := h\<rparr>"

definition add_health :: "real \<Rightarrow> Sector \<Rightarrow> Sector" where
  "add_health d sec = sec\<lparr>health := health sec + d\<rparr>"

definition set_workers :: "int \<Rightarrow> Sector \<Rightarrow> Sector" where
  "set_workers w sec = sec\<lparr>workers := w\<rparr>"

definition set_on_fire :: "bool \<Rightarrow> Sector \<Rightarrow> Sector" where
  "set_on_fire b sec = sec\<lparr>on_fire := b\<rparr>"

definition set_fire_turns :: "int \<Rightarrow> Sector \<Rightarrow> Sector" where
  "set_fire_turns n sec = sec\<lparr>fire_turns := n\<rparr>"

text \<open>
  A generic \<open>for x in xs: body\<close> over the mutable state and the random tape; each
  iteration sees the state the previous one left.
\<close>

fun for_each :: "'a list \<Rightarrow> ('a \<Rightarrow> GameState \<Rightarrow> rng \<Rightarrow> GameState \<times> rng)
    \<Rightarrow> GameState \<Rightarrow> rng \<Rightarrow> GameState \<times> rng" where
  "for_each [] body s rs = (s, rs)"
| "for_each (x # xs) body s rs = (case body x s rs of (s1, rs1) \<Rightarrow> for_each xs body s1 rs1)"

subsection \<open>GameState.__post_init__ and Simulation.__init__\<close>

definition configs :: "(int \<times> SectorType) list" where
  "configs = [(1, POWER), (2, INDUSTRIAL), (3, RESIDENTIAL), (4, FARMS),
     (5, RESIDENTIAL), (6, FARMS), (7, POWER), (8, RESIDENTIAL)]"

fun initialize_tower :: "(int \<times> SectorType) list \<Rightarrow> rng \<Rightarrow> Sector list \<times> rng" where
  "initialize_tower [] rs = ([], rs)"
| "initialize_tower ((l, t) # cs) rs =
     (case randint 8 15 rs of (w, rs1) \<Rightarrow>
        (case initialize_tower cs rs1 of (rest, rs2) \<Rightarrow> (new_sector l t w # rest, rs2)))"

definition roles :: "string list" where
  "roles = [''Engineer'', ''Farmer'', ''Doctor'', ''Builder'', ''Guard'', ''Scientist'']"

definition names :: "string list" where
  "names = [''Chen'', ''Maria'', ''Akeno'', ''Viktor'', ''Zara'', ''Kim'', ''Raj'']"

fun initialize_citizens :: "string list \<Rightarrow> int list \<Rightarrow> rng \<Rightarrow> Citizen list \<times> rng" where
  "initialize_citizens [] levels rs = ([], rs)"
| "initialize_citizens (n # ns) levels rs =
     (case random_below (length roles) rs of (i, rs1) \<Rightarrow>
        (case random_below (length levels) rs1 of (j, rs2) \<Rightarrow>
           (case initialize_citizens ns levels rs2 of (rest, rs3) \<Rightarrow>
              (\<lparr>name = n, role = roles ! i, location = levels ! j, citizen_alive = True\<rparr> # rest, rs3))))"

definition new_GameState :: "rng \<Rightarrow> GameState \<times> rng" where
  "new_GameState rs =
     (case initialize_tower configs rs of (secs, rs1) \<Rightarrow>
        (case initialize_citizens (take 5 names) (map level secs) rs1 of (cits, rs2) \<Rightarrow>
           (\<lparr>year = 1, month = 1, food = 150, power = 100, materials = 80,
             population = 85, morale = 65, sectors = secs, max_height = 12,
             citizens = cits, events = [], current_dilemma = None, tension = 0,
             turns_since_crisis = 0, alive = True, victory_message = [],
             cursor = 5, building_mode = False\<rparr>, rs2)))"

definition new_Simulation :: "rng \<Rightarrow> GameState \<times> rng" where
  "new_Simulation rs =
     (case new_GameState rs of (s, rs1) \<Rightarrow>
        (add_event (sym_warning @ ''  The Tower is unstable. Disasters will come. Be ready.'') ''yellow''
          (add_event (sym_bolt @ '' The Spire awakens. Your people huddle in its shadow.'') ''cyan'' s),
         rs1))"

subsection \<open>Simulation._process_action\<close>

text \<open>
  \<open>sort(key=level)\<close> is stable; \<open>sorted_pos ys i\<close> is the position after the sort of
  the object at position \<open>i\<close> before it, which is where a pending dilemma's captured
  sector is found afterwards.
\<close>

definition sorted_pos :: "Sector list \<Rightarrow> nat \<Rightarrow> nat" where
  "sorted_pos ys i = length (filter (\<lambda>x. level x < level (ys ! i)) ys)
     + length (filter (\<lambda>x. level x = level (ys ! i)) (take i ys))"

definition build_type :: "string \<Rightarrow> SectorType \<times> string" where
  "build_type action =
     (if action = ''build_farm'' then (FARMS, ''Farm'')
      else if action = ''build_power'' then (POWER, ''Power'')
      else if action = ''build_industry'' then (INDUSTRIAL, ''Industry'')
      else if action = ''build_housing'' then (RESIDENTIAL, ''Housing'')
      else (RESIDENTIAL, ''Housing''))"

definition action_repair :: "GameState \<Rightarrow> GameState" where
  "action_repair s =
     (case get_sector s (cursor s) of
        None \<Rightarrow> add_event (sym_cross @ '' Need 40 materials'') ''red'' s
      | Some i \<Rightarrow>
          if materials s \<ge> 40
          then add_event (sym_wrench @ '' Level '' @ str_int (cursor s) @ '' repaired'') ''green''
                 (upd_sector i (\<lambda>sec. set_health (min 100 (health sec + 50)) sec)
                    (s\<lparr>materials := materials s - 40\<rparr>))
          else add_event (sym_cross @ '' Need 40 materials'') ''red'' s)"

definition action_extinguish :: "GameState \<Rightarrow> GameState" where
  "action_extinguish s =
     (case get_sector s (cursor s) of
        None \<Rightarrow> add_event (sym_cross @ '' Need 30 power or no fire'') ''red'' s
      | Some i \<Rightarrow>
          if on_fire (sectors s ! i) \<and> power s \<ge> 30
          then add_event (sym_engine @ '' Fire on Level '' @ str_int (cursor s) @ '' extinguished'') ''green''
                 (upd_sector i (set_on_fire False) (s\<lparr>power := power s - 30\<rparr>))
          else add_event (sym_cross @ '' Need 30 power or no fire'') ''red'' s)"

definition action_build :: "string \<Rightarrow> GameState \<Rightarrow> rng \<Rightarrow> GameState \<times> rng" where
  "action_build action s rs =
     (let next_level = int (length (sectors s)) + 1 in
      if next_level > max_height s then (add_event (sym_cross @ '' At maximum height'') ''red'' s, rs)
      else if materials s < 80 then (add_event (sym_cross @ '' Need 80 materials to build'') ''red'' s, rs)
      else (case build_type action of (stype, type_name) \<Rightarrow>
        (case randint 5 10 rs of (w, rs1) \<Rightarrow>
          (let appended = sectors s @ [new_sector next_level stype w];
               s1 = s\<lparr>materials := materials s - 80,
                       sectors := sort_key level appended,
                       current_dilemma :=
                         map_option (\<lambda>d. d\<lparr>target := sorted_pos appended (target d)\<rparr>) (current_dilemma s)\<rparr>
           in (add_event (sym_crane @ ''  '' @ type_name @ '' built on Level '' @ str_int next_level) ''cyan'' s1,
               rs1)))))"

definition action_boost_morale :: "GameState \<Rightarrow> GameState" where
  "action_boost_morale s =
     (if food s \<ge> 40 \<and> power s \<ge> 20
      then add_event (sym_party @ '' Festival held - morale boosted!'') ''green''
             (s\<lparr>food := food s - 40, power := power s - 20, morale := morale s + 30\<rparr>)
      else add_event (sym_cross @ '' Need 40 food + 20 power'') ''red'' s)"

definition action_emergency_rations :: "GameState \<Rightarrow> GameState" where
  "action_emergency_rations s =
     (if population s > 30
      then add_event (sym_swords @ ''  Culled 10 citizens for emergency rations'') ''red''
             (s\<lparr>population := population s - 10, food := food s + 60, morale := morale s - 20\<rparr>)
      else s)"

definition process_action :: "GameState \<Rightarrow> string \<Rightarrow> rng \<Rightarrow> GameState \<times> rng" where
  "process_action s action rs =
     (if action = ''repair'' then (action_repair s, rs)
      else if action = ''extinguish'' then (action_extinguish s, rs)
      else if take 5 action = ''build'' then action_build action s rs
      else if action = ''boost_morale'' then (action_boost_morale s, rs)
      else if action = ''emergency_rations'' then (action_emergency_rations s, rs)
      else (s, rs))"

subsection \<open>Simulation._create_dilemma and the two consequences\<close>

definition save_sector :: "nat \<Rightarrow> GameState \<Rightarrow> GameState" where
  "save_sector t s =
     (let s1 = upd_sector t (add_health 40) s;
          s2 = s1\<lparr>materials := materials s1 - 50\<rparr>
      in add_event (sym_check @ '' Level '' @ str_int (level (sectors s2 ! t)) @ '' reinforced'') ''green'' s2)"

definition abandon_sector :: "nat \<Rightarrow> GameState \<Rightarrow> GameState" where
  "abandon_sector t s =
     (let refugees = workers (sectors s ! t);
          s1 = s\<lparr>population := population s - py_int (of_int refugees * 0.3)\<rparr>;
          s2 = upd_sector t (set_health 0) (upd_sector t (set_workers 0) s1);
          s3 = s2\<lparr>morale := morale s2 - 15\<rparr>
      in add_event (sym_door @ '' Level '' @ str_int (level (sectors s3 ! t)) @ '' evacuated, some lost'') ''yellow'' s3)"

definition consequence_a :: "Dilemma \<Rightarrow> GameState \<Rightarrow> GameState" where
  "consequence_a d s = save_sector (target d) s"

definition consequence_b :: "Dilemma \<Rightarrow> GameState \<Rightarrow> GameState" where
  "consequence_b d s = abandon_sector (target d) s"

definition create_dilemma :: "GameState \<Rightarrow> rng \<Rightarrow> GameState \<times> rng" where
  "create_dilemma s rs =
     (let damaged = filter (\<lambda>i. 20 < health (sectors s ! i) \<and> health (sectors s ! i) < 60)
                      [0..<length (sectors s)] in
      if damaged = [] then (s, rs)
      else (case random_below (length damaged) rs of (k, rs1) \<Rightarrow>
        (let t = damaged ! k; sec = sectors s ! t in
         (s\<lparr>current_dilemma := Some
             \<lparr>title = ''Level '' @ str_int (level sec) @ '' Critical'',
              description = type_label (sector_type sec) @ '' sector failing! ''
                 @ str_int (workers sec) @ '' workers trapped.'',
              option_a = ''Reinforce (-50 materials)'',
              option_b = ''Evacuate (lose workers)'',
              target = t\<rparr>\<rparr>, rs1))))"

subsection \<open>Simulation._propagate_disasters\<close>

definition spread_to :: "int \<Rightarrow> GameState \<Rightarrow> rng \<Rightarrow> GameState \<times> rng" where
  "spread_to adj_level s rs =
     (case get_sector s adj_level of
        None \<Rightarrow> (s, rs)
      | Some j \<Rightarrow>
          if on_fire (sectors s ! j) then (s, rs)
          else (case random_random rs of (u, rs1) \<Rightarrow>
            if u < 0.5
            then (add_event (sym_fire @ '' Fire spreads to Level '' @ str_int adj_level @ ''!'') ''red''
                    (upd_sector j (set_fire_turns 0) (upd_sector j (set_on_fire True) s)), rs1)
            else (s, rs1)))"

definition fire_spread :: "nat \<Rightarrow> GameState \<Rightarrow> rng \<Rightarrow> GameState \<times> rng" where
  "fire_spread i s rs =
     (if fire_turns (sectors s ! i) > 2
      then (case random_random rs of (u, rs1) \<Rightarrow>
        if u < 0.4
        then for_each [level (sectors s ! i) - 1, level (sectors s ! i) + 1] spread_to s rs1
        else (s, rs1))
      else (s, rs))"

definition fire_burn_out :: "nat \<Rightarrow> GameState \<Rightarrow> rng \<Rightarrow> GameState \<times> rng" where
  "fire_burn_out i s rs =
     (if fire_turns (sectors s ! i) > 5
      then (case random_random rs of (u, rs1) \<Rightarrow>
        if u < 0.3
        then (add_event (sym_fire @ '' Fire on Level '' @ str_int (level (sectors s ! i)) @ '' burns out'') ''yellow''
                (upd_sector i (set_on_fire False) s), rs1)
        else (s, rs1))
      else (s, rs))"

definition propagate_sector :: "nat \<Rightarrow> GameState \<Rightarrow> rng \<Rightarrow> GameState \<times> rng" where
  "propagate_sector i s rs =
     (if on_fire (sectors s ! i)
      then (let s1 = upd_sector i (add_health (- 8))
                       (upd_sector i (\<lambda>sec. set_fire_turns (fire_turns sec + 1) sec) s)
            in (case fire_spread i s1 rs of (s2, rs2) \<Rightarrow> fire_burn_out i s2 rs2))
      else (s, rs))"

definition propagate_disasters :: "GameState \<Rightarrow> rng \<Rightarrow> GameState \<times> rng" where
  "propagate_disasters s rs = for_each [0..<length (sectors s)] propagate_sector s rs"

subsection \<open>The crises and minor events\<close>

fun earthquake_hits :: "nat list \<Rightarrow> GameState \<Rightarrow> int \<Rightarrow> rng \<Rightarrow> GameState \<times> int \<times> rng" where
  "earthquake_hits [] s casualties rs = (s, casualties, rs)"
| "earthquake_hits (i # hit) s casualties rs =
     (case randint 20 45 rs of (damage, rs1) \<Rightarrow>
        (case randint 2 6 rs1 of (c, rs2) \<Rightarrow>
           earthquake_hits hit (upd_sector i (add_health (- of_int damage)) s) (casualties + c) rs2))"

definition crisis_earthquake :: "GameState \<Rightarrow> rng \<Rightarrow> GameState \<times> rng" where
  "crisis_earthquake s rs =
     (case randint 2 5 rs of (affected, rs1) \<Rightarrow>
        (case sample [0..<length (sectors s)] (nat (min affected (int (length (sectors s))))) rs1 of
           (sectors_hit, rs2) \<Rightarrow>
             (case earthquake_hits sectors_hit s 0 rs2 of (s1, casualties, rs3) \<Rightarrow>
                (add_event (sym_globe @ '' EARTHQUAKE! '' @ str_int affected @ '' levels damaged, ''
                     @ str_int casualties @ '' dead'') ''red''
                   (s1\<lparr>population := population s1 - casualties, morale := morale s1 - 20\<rparr>), rs3))))"

definition crisis_fire :: "GameState \<Rightarrow> rng \<Rightarrow> py_error + (GameState \<times> rng)" where
  "crisis_fire s rs =
     (case choice [0..<length (sectors s)] rs of
        Inl e \<Rightarrow> Inl e
      | Inr (origin, rs1) \<Rightarrow>
          Inr (add_event (sym_fire @ '' MAJOR FIRE on Level '' @ str_int (level (sectors s ! origin))
                 @ ''! Spreading fast!'') ''red''
                 (upd_sector origin (set_fire_turns 0) (upd_sector origin (set_on_fire True) s)), rs1))"

definition crisis_disease :: "GameState \<Rightarrow> rng \<Rightarrow> GameState \<times> rng" where
  "crisis_disease s rs =
     (case uniform 0.15 0.3 rs of (u, rs1) \<Rightarrow>
        (let deaths = py_int (of_int (population s) * u) in
         (add_event (sym_microbe @ '' PLAGUE OUTBREAK: '' @ str_int deaths @ '' dead in days'') ''red''
            (s\<lparr>population := population s - deaths, morale := morale s - 30\<rparr>), rs1)))"

fun failure_targets :: "nat list \<Rightarrow> GameState \<Rightarrow> int \<Rightarrow> GameState \<times> int" where
  "failure_targets [] s total_casualties = (s, total_casualties)"
| "failure_targets (i # targets) s total_casualties =
     failure_targets targets
       (upd_sector i (set_workers 0) (upd_sector i (set_health 0) s))
       (total_casualties + workers (sectors s ! i))"

definition crisis_structural_failure :: "GameState \<Rightarrow> rng \<Rightarrow> GameState \<times> rng" where
  "crisis_structural_failure s rs =
     (case randint 1 3 rs of (levels_lost, rs1) \<Rightarrow>
        (case sample [0..<length (sectors s)] (nat (min levels_lost (int (length (sectors s))))) rs1 of
           (targets, rs2) \<Rightarrow>
             (case failure_targets targets s 0 of (s1, total_casualties) \<Rightarrow>
                (add_event (sym_collision @ '' STRUCTURAL FAILURE: '' @ str_int levels_lost
                     @ '' levels collapse, '' @ str_int total_casualties @ '' lost'') ''red''
                   (s1\<lparr>population := population s1 - total_casualties\<rparr>), rs2))))"

definition crisis_riot :: "GameState \<Rightarrow> rng \<Rightarrow> py_error + (GameState \<times> rng)" where
  "crisis_riot s rs =
     (case choice [0..<length (sectors s)] rs of
        Inl e \<Rightarrow> Inl e
      | Inr (t, rs1) \<Rightarrow>
          (let s1 = upd_sector t (add_health (- 30)) s;
               s2 = s1\<lparr>morale := morale s1 - 25\<rparr>
           in (case randint 5 15 rs1 of (deaths, rs2) \<Rightarrow>
             Inr (add_event (sym_fist @ '' RIOTS on Level '' @ str_int (level (sectors s2 ! t)) @ '': ''
                    @ str_int deaths @ '' casualties'') ''red''
                    (s2\<lparr>population := population s2 - deaths\<rparr>), rs2))))"

definition trigger_crisis :: "GameState \<Rightarrow> rng \<Rightarrow> py_error + (GameState \<times> rng)" where
  "trigger_crisis s rs =
     (case random_below 5 rs of (k, rs1) \<Rightarrow>
        if k = 0 then Inr (crisis_earthquake s rs1)
        else if k = 1 then crisis_fire s rs1
        else if k = 2 then Inr (crisis_disease s rs1)
        else if k = 3 then Inr (crisis_structural_failure s rs1)
        else crisis_riot s rs1)"

definition trigger_minor_event :: "GameState \<Rightarrow> rng \<Rightarrow> GameState \<times> rng" where
  "trigger_minor_event s rs =
     (case random_below 4 rs of (k, rs1) \<Rightarrow>
        if k = 0 then (case randint 30 60 rs1 of (n, rs2) \<Rightarrow>
          (add_event (sym_present @ '' Supply cache discovered'') ''green''
             (s\<lparr>materials := materials s + of_int n\<rparr>), rs2))
        else if k = 1 then (case randint 5 12 rs1 of (n, rs2) \<Rightarrow>
          (add_event (sym_busts @ '' Refugee group arrives'') ''cyan''
             (s\<lparr>population := population s + n\<rparr>), rs2))
        else if k = 2 then (case randint 40 80 rs1 of (n, rs2) \<Rightarrow>
          (add_event (sym_bolt @ '' Power surge'') ''yellow''
             (s\<lparr>power := power s + of_int n\<rparr>), rs2))
        else (case randint 50 100 rs1 of (n, rs2) \<Rightarrow>
          (add_event (sym_rice @ '' Abundant harvest'') ''green''
             (s\<lparr>food := food s + of_int n\<rparr>), rs2)))"

subsection \<open>Simulation.advance_turn, phase by phase\<close>

text \<open>
  Each commented phase of the source is one definition, in the source's order; each
  takes the state the previous one left and, where it draws, the tape.
\<close>

definition advance_time :: "GameState \<Rightarrow> GameState" where
  "advance_time s =
     (let s1 = s\<lparr>month := month s + 1\<rparr>;
          s2 = (if month s1 > 12 then s1\<lparr>month := 1, year := year s1 + 1\<rparr> else s1)
      in s2\<lparr>turns_since_crisis := turns_since_crisis s2 + 1\<rparr>)"

fun produce :: "Sector list \<Rightarrow> real \<times> real \<times> real \<Rightarrow> real \<times> real \<times> real" where
  "produce [] gen = gen"
| "produce (sec # rest) (power_gen, food_gen, materials_gen) =
     (if \<not> is_functional sec then produce rest (power_gen, food_gen, materials_gen)
      else (let efficiency = health sec / 100 in
        if sector_type sec = POWER
        then produce rest (power_gen + of_int (workers sec) * 3 * efficiency, food_gen, materials_gen)
        else if sector_type sec = FARMS
        then produce rest (power_gen, food_gen + of_int (workers sec) * 2.5 * efficiency, materials_gen)
        else if sector_type sec = INDUSTRIAL
        then produce rest (power_gen, food_gen, materials_gen + of_int (workers sec) * 2 * efficiency)
        else produce rest (power_gen, food_gen, materials_gen)))"

definition production_phase :: "GameState \<Rightarrow> GameState" where
  "production_phase s =
     (case produce (sectors s) (0, 0, 0) of (power_gen, food_gen, materials_gen) \<Rightarrow>
        s\<lparr>power := power s + power_gen, food := food s + food_gen,
          materials := materials s + materials_gen\<rparr>)"

definition consumption_phase :: "GameState \<Rightarrow> GameState" where
  "consumption_phase s =
     s\<lparr>power := power s - of_int (population s) * 0.6,
       food := food s - of_int (population s) * 1.0\<rparr>"

definition starvation :: "GameState \<Rightarrow> GameState" where
  "starvation s =
     (if food s < 0
      then (let deaths = min (py_int (of_int (population s) * 0.12)) 15;
                s1 = s\<lparr>population := population s - deaths, morale := morale s - 25\<rparr>;
                s2 = add_event (sym_skull @ '' STARVATION: '' @ str_int deaths @ '' die from hunger'') ''red'' s1
            in s2\<lparr>food := 0\<rparr>)
      else s)"

definition blackout :: "GameState \<Rightarrow> rng \<Rightarrow> GameState \<times> rng" where
  "blackout s rs =
     (if power s < 0
      then (let s1 = s\<lparr>morale := morale s - 15\<rparr>;
                functional = filter (\<lambda>i. is_functional (sectors s1 ! i)) [0..<length (sectors s1)]
            in if functional \<noteq> []
               then (case random_below (length functional) rs of (k, rs1) \<Rightarrow>
                 (let victim = functional ! k;
                      s2 = upd_sector victim (add_health (- 25)) s1;
                      s3 = add_event (sym_bolt @ '' BLACKOUT damages Level ''
                             @ str_int (level (sectors s2 ! victim))) ''red'' s2
                  in (s3\<lparr>power := 0\<rparr>, rs1)))
               else (s1\<lparr>power := 0\<rparr>, rs))
      else (s, rs))"

definition crisis_phase :: "GameState \<Rightarrow> rng \<Rightarrow> GameState \<times> rng" where
  "crisis_phase s rs = blackout (starvation s) rs"

definition collapse_below :: "nat \<Rightarrow> GameState \<Rightarrow> rng \<Rightarrow> GameState \<times> rng" where
  "collapse_below i s rs =
     (case random_random rs of (u, rs1) \<Rightarrow>
        if u < 0.3
        then (case get_sector s (level (sectors s ! i) - 1) of
                None \<Rightarrow> (s, rs1)
              | Some b \<Rightarrow>
                  (let s1 = upd_sector b (add_health (- 40)) s
                   in (add_event (sym_warning @ ''  Collapse damages Level ''
                         @ str_int (level (sectors s1 ! b)) @ ''!'') ''yellow'' s1, rs1)))
        else (s, rs1))"

definition decay_sector :: "nat \<Rightarrow> GameState \<Rightarrow> rng \<Rightarrow> GameState \<times> rng" where
  "decay_sector i s rs =
     (let s1 = (if health (sectors s ! i) > 0
                then (let decay = (if level (sectors s ! i) > 8 then 1.5 * 2 else 1.5)
                      in upd_sector i (add_health (- decay)) s)
                else s)
      in if health (sectors s1 ! i) \<le> 0 \<and> workers (sectors s1 ! i) > 0
         then (let casualties = workers (sectors s1 ! i);
                   s2 = s1\<lparr>population := population s1 - casualties\<rparr>;
                   s3 = upd_sector i (set_workers 0) s2;
                   s4 = add_event (sym_collision @ '' Level '' @ str_int (level (sectors s3 ! i))
                          @ '' COLLAPSES: '' @ str_int casualties @ '' lost'') ''red'' s3
               in collapse_below i s4 rs)
         else (s1, rs))"

definition sector_decay :: "GameState \<Rightarrow> rng \<Rightarrow> GameState \<times> rng" where
  "sector_decay s rs = for_each [0..<length (sectors s)] decay_sector s rs"

definition citizens_flee :: "GameState \<Rightarrow> rng \<Rightarrow> GameState \<times> rng" where
  "citizens_flee s rs =
     (if morale s < 30
      then (case randint 3 8 rs of (fled, rs1) \<Rightarrow>
        (add_event (sym_door @ '' '' @ str_int fled @ '' citizens flee the Spire'') ''yellow''
           (s\<lparr>population := population s - fled\<rparr>), rs1))
      else (s, rs))"

definition morale_recovery :: "GameState \<Rightarrow> GameState" where
  "morale_recovery s = (if morale s < 60 then s\<lparr>morale := morale s + 1.5\<rparr> else s)"

definition population_growth :: "GameState \<Rightarrow> rng \<Rightarrow> GameState \<times> rng" where
  "population_growth s rs =
     (if food s > 50 \<and> morale s > 50 \<and> month s mod 3 = 0
      then (case randint 2 5 rs of (growth, rs1) \<Rightarrow> (s\<lparr>population := population s + growth\<rparr>, rs1))
      else (s, rs))"

definition morale_population :: "GameState \<Rightarrow> rng \<Rightarrow> GameState \<times> rng" where
  "morale_population s rs =
     (case citizens_flee s rs of (s1, rs1) \<Rightarrow> population_growth (morale_recovery s1) rs1)"

definition crisis_due :: "GameState \<Rightarrow> rng \<Rightarrow> bool \<times> rng" where
  "crisis_due s rs =
     (if tension s > 100 then (True, rs)
      else if turns_since_crisis s > 8
      then (case random_random rs of (u, rs1) \<Rightarrow> (u < 0.4, rs1))
      else (False, rs))"

definition tension_pacing :: "GameState \<Rightarrow> rng \<Rightarrow> py_error + (GameState \<times> rng)" where
  "tension_pacing s rs =
     (let s1 = s\<lparr>tension := tension s + 2.5\<rparr> in
      case crisis_due s1 rs of (due, rs1) \<Rightarrow>
        if due
        then (case trigger_crisis s1 rs1 of
                Inl e \<Rightarrow> Inl e
              | Inr (s2, rs2) \<Rightarrow> Inr (s2\<lparr>tension := 0, turns_since_crisis := 0\<rparr>, rs2))
        else Inr (s1, rs1))"

definition minor_event_roll :: "GameState \<Rightarrow> rng \<Rightarrow> GameState \<times> rng" where
  "minor_event_roll s rs =
     (case random_random rs of (u, rs1) \<Rightarrow>
        if u < 0.15 then trigger_minor_event s rs1 else (s, rs1))"

definition dilemma_roll :: "GameState \<Rightarrow> rng \<Rightarrow> GameState \<times> rng" where
  "dilemma_roll s rs =
     (if current_dilemma s = None
      then (case random_random rs of (u, rs1) \<Rightarrow>
        if u < 0.12 then create_dilemma s rs1 else (s, rs1))
      else (s, rs))"

definition msg_extinction :: "GameState \<Rightarrow> string" where
  "msg_extinction s = sym_skull @ '' EXTINCTION - The Spire stands empty. Year '' @ str_int (year s)"

definition msg_total_collapse :: "GameState \<Rightarrow> string" where
  "msg_total_collapse s =
     sym_collision @ '' TOTAL COLLAPSE - All sectors destroyed. Year '' @ str_int (year s)"

definition msg_legendary :: "GameState \<Rightarrow> string" where
  "msg_legendary s = sym_trophy @ '' LEGENDARY - '' @ str_int (year s) @ '' years, ''
     @ str_int (population s) @ '' survivors!''"

definition check_extinction :: "GameState \<Rightarrow> GameState" where
  "check_extinction s =
     (if population s \<le> 0
      then (let s1 = s\<lparr>population := 0, alive := False\<rparr> in s1\<lparr>victory_message := msg_extinction s1\<rparr>)
      else s)"

definition check_total_collapse :: "GameState \<Rightarrow> GameState" where
  "check_total_collapse s =
     (let functional_sectors = length (filter is_functional (sectors s)) in
      if functional_sectors = 0
      then s\<lparr>alive := False, victory_message := msg_total_collapse s\<rparr>
      else s)"

definition check_legendary :: "GameState \<Rightarrow> GameState" where
  "check_legendary s =
     (if year s \<ge> 50 then s\<lparr>alive := False, victory_message := msg_legendary s\<rparr> else s)"

definition win_lose :: "GameState \<Rightarrow> GameState" where
  "win_lose s = check_legendary (check_total_collapse (check_extinction s))"

text \<open>
  The body of \<open>advance_turn\<close> in three pieces: everything up to the morale and
  population phase, the pacing phase (the only one that can raise: \<open>random.choice\<close>
  on an empty tower in the fire and riot crises), and the rest.
\<close>

definition turn_until_pacing :: "GameState \<Rightarrow> string \<Rightarrow> rng \<Rightarrow> GameState \<times> rng" where
  "turn_until_pacing s action rs =
     (case (if action \<noteq> ''wait'' then process_action (advance_time s) action rs
            else (advance_time s, rs)) of (s1, rs1) \<Rightarrow>
        (case crisis_phase (consumption_phase (production_phase s1)) rs1 of (s2, rs2) \<Rightarrow>
           (case propagate_disasters s2 rs2 of (s3, rs3) \<Rightarrow>
              (case sector_decay s3 rs3 of (s4, rs4) \<Rightarrow> morale_population s4 rs4))))"

definition turn_after_pacing :: "GameState \<Rightarrow> rng \<Rightarrow> GameState \<times> rng" where
  "turn_after_pacing s rs =
     (case minor_event_roll s rs of (s1, rs1) \<Rightarrow>
        (case dilemma_roll s1 rs1 of (s2, rs2) \<Rightarrow> (win_lose s2, rs2)))"

definition advance_turn :: "GameState \<Rightarrow> string \<Rightarrow> rng \<Rightarrow> py_error + (GameState \<times> rng)" where
  "advance_turn s action rs =
     (case turn_until_pacing s action rs of (s1, rs1) \<Rightarrow>
        (case tension_pacing s1 rs1 of
           Inl e \<Rightarrow> Inl e
         | Inr (s2, rs2) \<Rightarrow> Inr (turn_after_pacing s2 rs2)))"

subsection \<open>SpireApp: the key handlers that drive the engine\<close>

record App =
  sim :: GameState
  game_over :: bool
  game_over_message :: string

definition check_game_over :: "App \<Rightarrow> App" where
  "check_game_over app =
     (if \<not> alive (sim app) \<and> \<not> game_over app
      then app\<lparr>game_over := True, game_over_message := victory_message (sim app)\<rparr>
      else app)"

definition turn_and_check :: "string \<Rightarrow> App \<Rightarrow> rng \<Rightarrow> py_error + (App \<times> rng)" where
  "turn_and_check action app rs =
     (case advance_turn (sim app) action rs of
        Inl e \<Rightarrow> Inl e
      | Inr (s1, rs1) \<Rightarrow> Inr (check_game_over (app\<lparr>sim := s1\<rparr>), rs1))"

definition action_do_repair :: "App \<Rightarrow> rng \<Rightarrow> py_error + (App \<times> rng)" where
  "action_do_repair app rs =
     (if game_over app \<or> current_dilemma (sim app) \<noteq> None then Inr (app, rs)
      else turn_and_check ''repair'' app rs)"

definition action_do_extinguish :: "App \<Rightarrow> rng \<Rightarrow> py_error + (App \<times> rng)" where
  "action_do_extinguish app rs =
     (if game_over app \<or> current_dilemma (sim app) \<noteq> None then Inr (app, rs)
      else turn_and_check ''extinguish'' app rs)"

definition action_do_build :: "App \<Rightarrow> App" where
  "action_do_build app =
     (if game_over app \<or> current_dilemma (sim app) \<noteq> None then app
      else if int (length (sectors (sim app))) \<ge> max_height (sim app)
      then app\<lparr>sim := add_event (sym_cross @ '' At maximum height'') ''red'' (sim app)\<rparr>
      else if materials (sim app) < 80
      then app\<lparr>sim := add_event (sym_cross @ '' Need 80 materials to build'') ''red'' (sim app)\<rparr>
      else app\<lparr>sim := (sim app)\<lparr>building_mode := True\<rparr>\<rparr>)"

definition action_do_morale :: "App \<Rightarrow> rng \<Rightarrow> py_error + (App \<times> rng)" where
  "action_do_morale app rs =
     (if game_over app \<or> current_dilemma (sim app) \<noteq> None then Inr (app, rs)
      else turn_and_check ''boost_morale'' app rs)"

definition action_do_rations :: "App \<Rightarrow> rng \<Rightarrow> py_error + (App \<times> rng)" where
  "action_do_rations app rs =
     (if game_over app \<or> current_dilemma (sim app) \<noteq> None then Inr (app, rs)
      else turn_and_check ''emergency_rations'' app rs)"

definition action_do_wait :: "App \<Rightarrow> rng \<Rightarrow> py_error + (App \<times> rng)" where
  "action_do_wait app rs =
     (if game_over app \<or> current_dilemma (sim app) \<noteq> None then Inr (app, rs)
      else turn_and_check ''wait'' app rs)"

definition action_choice_a :: "App \<Rightarrow> rng \<Rightarrow> py_error + (App \<times> rng)" where
  "action_choice_a app rs =
     (case current_dilemma (sim app) of
        None \<Rightarrow> Inr (app, rs)
      | Some d \<Rightarrow>
          if game_over app then Inr (app, rs)
          else turn_and_check ''wait'' (app\<lparr>sim := (consequence_a d (sim app))\<lparr>current_dilemma := None\<rparr>\<rparr>) rs)"

definition action_choice_b :: "App \<Rightarrow> rng \<Rightarrow> py_error + (App \<times> rng)" where
  "action_choice_b app rs =
     (case current_dilemma (sim app) of
        None \<Rightarrow> Inr (app, rs)
      | Some d \<Rightarrow>
          if game_over app then Inr (app, rs)
          else turn_and_check ''wait'' (app\<lparr>sim := (consequence_b d (sim app))\<lparr>current_dilemma := None\<rparr>\<rparr>) rs)"

section \<open>Vocabulary of the properties\<close>

text \<open>
  \<open>same_frame\<close>, \<open>same_stock\<close> and \<open>kept\<close> relate the state before and after
  a phase that leaves the life flag, the height bound, the levels of the tower and the
  food and power pools alone. \<open>tower_ok\<close> is the shape of the tower: levels 1 to n
  in order, within the height bound. \<open>reachable\<close> are the states a driver can observe:
  a fresh simulation, then turns, dilemma choices and cursor moves.
\<close>

definition same_frame :: "GameState \<Rightarrow> GameState \<Rightarrow> bool" where
  "same_frame s s' = (alive s' = alive s \<and> max_height s' = max_height s
     \<and> map level (sectors s') = map level (sectors s))"

definition same_stock :: "GameState \<Rightarrow> GameState \<Rightarrow> bool" where
  "same_stock s s' = (food s' = food s \<and> power s' = power s)"

definition kept :: "GameState \<Rightarrow> GameState \<Rightarrow> bool" where
  "kept s s' = (same_frame s s' \<and> same_stock s s')"

definition tower_ok :: "GameState \<Rightarrow> bool" where
  "tower_ok s = (map level (sectors s) = map int [1..<Suc (length (sectors s))]
     \<and> int (length (sectors s)) \<le> max_height s)"

inductive reachable :: "GameState \<Rightarrow> bool" where
  created: "reachable (fst (new_Simulation rs))"
| turn: "reachable s \<Longrightarrow> advance_turn s action rs = Inr (s', rs') \<Longrightarrow> reachable s'"
| choice_a: "reachable s \<Longrightarrow> current_dilemma s = Some d \<Longrightarrow>
     reachable ((consequence_a d s)\<lparr>current_dilemma := None\<rparr>)"
| choice_b: "reachable s \<Longrightarrow> current_dilemma s = Some d \<Longrightarrow>
     reachable ((consequence_b d s)\<lparr>current_dilemma := None\<rparr>)"
| move_cursor: "reachable s \<Longrightarrow> reachable (s\<lparr>cursor := c\<rparr>)"

text \<open>\<open>play\<close> is a driver submitting a list of actions, one turn each.\<close>

fun play :: "string list \<Rightarrow> GameState \<Rightarrow> rng \<Rightarrow> py_error + (GameState \<times> rng)" where
  "play [] s rs = Inr (s, rs)"
| "play (action # actions) s rs =
     (case advance_turn s action rs of
        Inl e \<Rightarrow> Inl e
      | Inr (s1, rs1) \<Rightarrow> play actions s1 rs1)"

text \<open>\<open>advance_turns n\<close> is a driver calling \<open>advance_turn\<close> n times with one action.\<close>

fun advance_turns :: "nat \<Rightarrow> GameState \<Rightarrow> string \<Rightarrow> rng \<Rightarrow> py_error + (GameState \<times> rng)" where
  "advance_turns 0 s action rs = Inr (s, rs)"
| "advance_turns (Suc n) s action rs =
     (case advance_turn s action rs of
        Inl e \<Rightarrow> Inl e
      | Inr (s1, rs1) \<Rightarrow> advance_turns n s1 action rs1)"

subsection \<open>Concrete states\<close>

definition fresh :: GameState where
  "fresh = fst (new_Simulation [])"

definition dead50 :: GameState where
  "dead50 = fresh\<lparr>year := 50, population := 0\<rparr>"

definition ruined :: GameState where
  "ruined = fresh\<lparr>sectors := map (set_health 0) (sectors fresh)\<rparr>"

definition extinct :: GameState where
  "extinct = fresh\<lparr>population := 0\<rparr>"

definition starving :: GameState where
  "starving = fresh\<lparr>food := 10, power := 0\<rparr>"

definition dead :: GameState where
  "dead = fresh\<lparr>month := 12, population := 0, alive := False,
     victory_message := msg_extinction fresh\<rparr>"

definition poor :: GameState where
  "poor = fresh\<lparr>materials := 30\<rparr>"

definition hungry :: GameState where
  "hungry = fresh\<lparr>population := 30\<rparr>"

definition cracked :: GameState where
  "cracked = fresh\<lparr>sectors := (sectors fresh)[4 := set_health 40 (sectors fresh ! 4)]\<rparr>"

definition level5_dilemma :: Dilemma where
  "level5_dilemma = \<lparr>title = ''Level '' @ str_int 5 @ '' Critical'',
     description = ''Housing sector failing! '' @ str_int 8 @ '' workers trapped.'',
     option_a = ''Reinforce (-50 materials)'', option_b = ''Evacuate (lose workers)'',
     target = 4\<rparr>"

definition stuck :: GameState where
  "stuck = fst (create_dilemma cracked [])"


definition stuck_app :: App where
  "stuck_app = \<lparr>sim = stuck, game_over = False, game_over_message = []\<rparr>"

definition depleted :: GameState where
  "depleted = fresh\<lparr>food := - 35, power := - 3, morale := 50\<rparr>"

definition overdue :: GameState where
  "overdue = fresh\<lparr>turns_since_crisis := 9\<rparr>"

section \<open>Frame lemmas\<close>

lemma draw_range: "0 \<le> fst (draw rs) \<and> fst (draw rs) < 1"
proof (cases rs)
  case Nil
  then show ?thesis by (simp add: draw_def)
next
  case (Cons r rs')
  then show ?thesis
    using frac_lt_1 [of r] frac_ge_0 [of r] by (simp add: draw_def frac_def)
qed

lemma draw_range': "draw rs = (u, rs') \<Longrightarrow> 0 \<le> u \<and> u < 1"
  using draw_range [of rs] by simp

lemma random_below_lt: "0 < n \<Longrightarrow> random_below n rs = (k, rs') \<Longrightarrow> k < n"
proof -
  assume n: "0 < n" and r: "random_below n rs = (k, rs')"
  obtain u ru where d: "draw rs = (u, ru)" by (cases "draw rs")
  from draw_range' [OF d] have u: "0 \<le> u" "u < 1" by simp_all
  from r d have k: "k = nat \<lfloor>u * of_nat n\<rfloor>" by (simp add: random_below_def)
  from u n have "u * of_nat n < of_nat n" by simp
  then have "\<lfloor>u * of_nat n\<rfloor> < int n" by (simp add: floor_less_iff)
  with k n show "k < n" by linarith
qed

lemma randint_ge: "a \<le> b \<Longrightarrow> randint a b rs = (k, rs') \<Longrightarrow> a \<le> k"
proof -
  assume ab: "a \<le> b" and r: "randint a b rs = (k, rs')"
  obtain u ru where d: "draw rs = (u, ru)" by (cases "draw rs")
  from draw_range' [OF d] have u: "0 \<le> u" by simp
  from r d have k: "k = a + \<lfloor>u * of_int (b - a + 1)\<rfloor>" by (simp add: randint_def)
  from u ab have "0 \<le> u * of_int (b - a + 1)" by simp
  then have "0 \<le> \<lfloor>u * of_int (b - a + 1)\<rfloor>" by simp
  with k show "a \<le> k" by simp
qed

lemma add_event_fields [simp]:
  "year (add_event m c s) = year s" "month (add_event m c s) = month s"
  "food (add_event m c s) = food s" "power (add_event m c s) = power s"
  "materials (add_event m c s) = materials s" "population (add_event m c s) = population s"
  "morale (add_event m c s) = morale s" "sectors (add_event m c s) = sectors s"
  "max_height (add_event m c s) = max_height s" "citizens (add_event m c s) = citizens s"
  "current_dilemma (add_event m c s) = current_dilemma s" "tension (add_event m c s) = tension s"
  "turns_since_crisis (add_event m c s) = turns_since_crisis s" "alive (add_event m c s) = alive s"
  "victory_message (add_event m c s) = victory_message s" "cursor (add_event m c s) = cursor s"
  "building_mode (add_event m c s) = building_mode s"
  by (simp_all add: add_event_def Let_def)

lemma upd_sector_fields [simp]:
  "year (upd_sector i f s) = year s" "month (upd_sector i f s) = month s"
  "food (upd_sector i f s) = food s" "power (upd_sector i f s) = power s"
  "materials (upd_sector i f s) = materials s" "population (upd_sector i f s) = population s"
  "morale (upd_sector i f s) = morale s" "events (upd_sector i f s) = events s"
  "max_height (upd_sector i f s) = max_height s" "citizens (upd_sector i f s) = citizens s"
  "current_dilemma (upd_sector i f s) = current_dilemma s" "tension (upd_sector i f s) = tension s"
  "turns_since_crisis (upd_sector i f s) = turns_since_crisis s" "alive (upd_sector i f s) = alive s"
  "victory_message (upd_sector i f s) = victory_message s" "cursor (upd_sector i f s) = cursor s"
  "building_mode (upd_sector i f s) = building_mode s"
  "length (sectors (upd_sector i f s)) = length (sectors s)"
  by (simp_all add: upd_sector_def)

lemma upd_sector_levels:
  assumes "level (f (sectors s ! i)) = level (sectors s ! i)"
  shows "map level (sectors (upd_sector i f s)) = map level (sectors s)"
proof (cases "i < length (sectors s)")
  case True
  have "map level ((sectors s)[i := f (sectors s ! i)]) = (map level (sectors s))[i := level (sectors s ! i)]"
    using assms by (simp add: map_update)
  also have "\<dots> = map level (sectors s)"
    using True by (simp add: list_update_same_conv)
  finally show ?thesis by (simp add: upd_sector_def)
next
  case False
  then show ?thesis by (simp add: upd_sector_def list_update_beyond)
qed

lemma setter_level [simp]:
  "level (set_health h sec) = level sec" "level (add_health d sec) = level sec"
  "level (set_workers w sec) = level sec" "level (set_on_fire b sec) = level sec"
  "level (set_fire_turns n sec) = level sec"
  by (simp_all add: set_health_def add_health_def set_workers_def set_on_fire_def set_fire_turns_def)

lemmas kept_defs = kept_def same_frame_def same_stock_def

lemma upd_levels [simp]:
  "map level (sectors (upd_sector i (set_health h) s)) = map level (sectors s)"
  "map level (sectors (upd_sector i (add_health d) s)) = map level (sectors s)"
  "map level (sectors (upd_sector i (set_workers w) s)) = map level (sectors s)"
  "map level (sectors (upd_sector i (set_on_fire b) s)) = map level (sectors s)"
  "map level (sectors (upd_sector i (set_fire_turns n) s)) = map level (sectors s)"
  "map level (sectors (upd_sector i (\<lambda>sec. set_fire_turns (g sec) sec) s)) = map level (sectors s)"
  "map level (sectors (upd_sector i (\<lambda>sec. set_health (k sec) sec) s)) = map level (sectors s)"
  by (simp_all add: upd_sector_levels)

lemma for_each_kept:
  assumes "\<And>x s rs. kept s (fst (body x s rs))"
  shows "kept s (fst (for_each xs body s rs))"
proof (induction xs arbitrary: s rs)
  case Nil
  show ?case by (simp add: kept_defs)
next
  case (Cons x xs)
  obtain s1 rs1 where b: "body x s rs = (s1, rs1)" by (cases "body x s rs")
  have "kept s s1" using assms [of s x rs] b by simp
  moreover have "kept s1 (fst (for_each xs body s1 rs1))" by (rule Cons.IH)
  ultimately show ?case using b by (simp add: kept_defs)
qed

lemma spread_to_kept: "kept s (fst (spread_to l s rs))"
  by (simp add: spread_to_def kept_defs split_beta split: option.splits)

lemmas spread_to_fields [simp] = spread_to_kept [unfolded kept_defs]

lemma fire_spread_kept: "kept s (fst (fire_spread i s rs))"
  by (simp add: fire_spread_def split_beta for_each_kept spread_to_kept) (simp add: kept_defs)

lemmas fire_spread_fields [simp] = fire_spread_kept [unfolded kept_defs]

lemma fire_burn_out_kept: "kept s (fst (fire_burn_out i s rs))"
  by (simp add: fire_burn_out_def kept_defs split_beta)

lemmas fire_burn_out_fields [simp] = fire_burn_out_kept [unfolded kept_defs]

lemma propagate_sector_kept: "kept s (fst (propagate_sector i s rs))"
  by (simp add: propagate_sector_def kept_defs split_beta Let_def)

lemma propagate_disasters_kept: "kept s (fst (propagate_disasters s rs))"
  by (simp add: propagate_disasters_def for_each_kept propagate_sector_kept)

lemma collapse_below_kept: "kept s (fst (collapse_below i s rs))"
  by (simp add: collapse_below_def kept_defs split_beta Let_def split: option.splits)

lemmas collapse_below_fields [simp] = collapse_below_kept [unfolded kept_defs]

lemma decay_sector_kept: "kept s (fst (decay_sector i s rs))"
  by (simp add: decay_sector_def kept_defs split_beta Let_def)

lemma sector_decay_kept: "kept s (fst (sector_decay s rs))"
  by (simp add: sector_decay_def for_each_kept decay_sector_kept)

lemma morale_population_kept: "kept s (fst (morale_population s rs))"
  by (simp add: morale_population_def citizens_flee_def morale_recovery_def population_growth_def
      kept_defs split_beta)

lemma earthquake_hits_kept: "kept s (fst (earthquake_hits hit s c rs))"
proof (induction hit arbitrary: s c rs)
  case Nil
  show ?case by (simp add: kept_defs)
next
  case (Cons i hit)
  show ?case
    using Cons.IH [of "upd_sector i (add_health (- of_int (fst (randint 20 45 rs)))) s"]
    by (simp add: split_beta kept_defs)
qed

lemmas earthquake_hits_fields [simp] = earthquake_hits_kept [unfolded kept_defs]

lemma crisis_earthquake_kept: "kept s (fst (crisis_earthquake s rs))"
  by (simp add: crisis_earthquake_def kept_defs split_beta)

lemma failure_targets_kept: "kept s (fst (failure_targets ts s c))"
proof (induction ts arbitrary: s c)
  case Nil
  show ?case by (simp add: kept_defs)
next
  case (Cons i ts)
  show ?case
    using Cons.IH [of "upd_sector i (set_workers 0) (upd_sector i (set_health 0) s)"]
    by (simp add: kept_defs)
qed

lemmas failure_targets_fields [simp] = failure_targets_kept [unfolded kept_defs]

lemma crisis_structural_failure_kept: "kept s (fst (crisis_structural_failure s rs))"
  by (simp add: crisis_structural_failure_def kept_defs split_beta)

lemma crisis_disease_kept: "kept s (fst (crisis_disease s rs))"
  by (simp add: crisis_disease_def kept_defs split_beta Let_def)

lemma crisis_fire_kept: "crisis_fire s rs = Inr (s', rs') \<Longrightarrow> kept s s'"
  by (auto simp: crisis_fire_def kept_defs split: sum.splits)

lemma crisis_riot_kept: "crisis_riot s rs = Inr (s', rs') \<Longrightarrow> kept s s'"
  by (auto simp: crisis_riot_def kept_defs Let_def split_beta split: sum.splits)

lemma trigger_crisis_kept: "trigger_crisis s rs = Inr (s', rs') \<Longrightarrow> kept s s'"
  using crisis_earthquake_kept [of s "snd (random_below 5 rs)"]
    crisis_disease_kept [of s "snd (random_below 5 rs)"]
    crisis_structural_failure_kept [of s "snd (random_below 5 rs)"]
  by (auto simp: trigger_crisis_def split_beta split: if_splits dest: crisis_fire_kept crisis_riot_kept)

lemma tension_pacing_kept: "tension_pacing s rs = Inr (s', rs') \<Longrightarrow> kept s s'"
  by (auto simp: tension_pacing_def Let_def split_beta kept_defs split: if_splits sum.splits
      dest!: trigger_crisis_kept)

lemma trigger_minor_event_frame: "same_frame s (fst (trigger_minor_event s rs))"
  by (simp add: trigger_minor_event_def same_frame_def split_beta)

lemma trigger_minor_event_stock:
  "food s \<le> food (fst (trigger_minor_event s rs)) \<and> power s \<le> power (fst (trigger_minor_event s rs))"
proof -
  obtain k rs1 where k: "random_below 4 rs = (k, rs1)" by (cases "random_below 4 rs")
  obtain a ra where a: "randint 40 80 rs1 = (a, ra)" by (cases "randint 40 80 rs1")
  obtain b rb where b: "randint 50 100 rs1 = (b, rb)" by (cases "randint 50 100 rs1")
  have "40 \<le> a" using randint_ge [OF _ a] by simp
  moreover have "50 \<le> b" using randint_ge [OF _ b] by simp
  ultimately show ?thesis using k a b
    by (simp add: trigger_minor_event_def split_beta)
qed

lemma minor_event_roll_frame: "same_frame s (fst (minor_event_roll s rs))"
  using trigger_minor_event_frame [of s "snd (random_random rs)"]
  by (simp add: minor_event_roll_def split_beta same_frame_def)

lemma minor_event_roll_stock:
  "food s \<le> food (fst (minor_event_roll s rs)) \<and> power s \<le> power (fst (minor_event_roll s rs))"
  using trigger_minor_event_stock [of s "snd (random_random rs)"]
  by (simp add: minor_event_roll_def split_beta)

lemma create_dilemma_kept: "kept s (fst (create_dilemma s rs))"
  by (simp add: create_dilemma_def kept_defs split_beta Let_def)

lemma dilemma_roll_kept: "kept s (fst (dilemma_roll s rs))"
  using create_dilemma_kept [of s "snd (random_random rs)"]
  by (simp add: dilemma_roll_def kept_defs split_beta)

lemma win_lose_fields:
  "max_height (win_lose s) = max_height s" "sectors (win_lose s) = sectors s"
  "food (win_lose s) = food s" "power (win_lose s) = power s"
  "alive (win_lose s) \<Longrightarrow> alive s"
  by (simp_all add: win_lose_def check_legendary_def check_total_collapse_def check_extinction_def
      Let_def split: if_splits)

lemma turn_after_pacing_facts:
  assumes "turn_after_pacing s rs = (s', rs')"
  shows "max_height s' = max_height s" "map level (sectors s') = map level (sectors s)"
    "food s \<le> food s'" "power s \<le> power s'" "alive s' \<Longrightarrow> alive s"
proof -
  obtain s1 rs1 where m: "minor_event_roll s rs = (s1, rs1)" by (cases "minor_event_roll s rs")
  obtain s2 rs2 where d: "dilemma_roll s1 rs1 = (s2, rs2)" by (cases "dilemma_roll s1 rs1")
  from assms m d have e: "s' = win_lose s2" by (simp add: turn_after_pacing_def)
  have f1: "same_frame s s1" using minor_event_roll_frame [of s rs] m by simp
  have g1: "food s \<le> food s1 \<and> power s \<le> power s1" using minor_event_roll_stock [of s rs] m by simp
  have k2: "kept s1 s2" using dilemma_roll_kept [of s1 rs1] d by simp
  show "max_height s' = max_height s" using e f1 k2 by (simp add: win_lose_fields kept_defs)
  show "map level (sectors s') = map level (sectors s)" using e f1 k2 by (simp add: win_lose_fields kept_defs)
  show "food s \<le> food s'" using e g1 k2 by (simp add: win_lose_fields kept_defs)
  show "power s \<le> power s'" using e g1 k2 by (simp add: win_lose_fields kept_defs)
  show "alive s' \<Longrightarrow> alive s" using e f1 k2 win_lose_fields(5) [of s2] by (simp add: kept_defs)
qed

lemma advance_time_frame: "same_frame s (advance_time s)"
  by (simp add: advance_time_def same_frame_def Let_def)

lemma production_phase_frame: "same_frame s (production_phase s)"
  by (simp add: production_phase_def same_frame_def split_beta)

lemma consumption_phase_frame: "same_frame s (consumption_phase s)"
  by (simp add: consumption_phase_def same_frame_def)

lemma starvation_frame: "same_frame s (starvation s)"
  by (simp add: starvation_def same_frame_def Let_def)

lemma starvation_food: "0 \<le> food (starvation s)" "power (starvation s) = power s"
  by (simp_all add: starvation_def Let_def)

lemma blackout_frame: "same_frame s (fst (blackout s rs))"
  by (simp add: blackout_def same_frame_def Let_def split_beta)

lemma blackout_stock: "food (fst (blackout s rs)) = food s" "0 \<le> power (fst (blackout s rs))"
  by (simp_all add: blackout_def Let_def split_beta)

lemma crisis_phase_frame: "same_frame s (fst (crisis_phase s rs))"
  using blackout_frame [of "starvation s" rs] starvation_frame [of s]
  by (simp add: crisis_phase_def same_frame_def)

lemma crisis_phase_stock: "0 \<le> food (fst (crisis_phase s rs))" "0 \<le> power (fst (crisis_phase s rs))"
  by (simp_all add: crisis_phase_def blackout_stock starvation_food)

lemma same_frame_length: "same_frame s s' \<Longrightarrow> length (sectors s') = length (sectors s)"
  unfolding same_frame_def by (elim conjE) (rule map_eq_imp_length_eq)

lemma same_frame_tower_ok:
  assumes f: "same_frame s s'" and t: "tower_ok s"
  shows "tower_ok s'"
proof -
  from f have m: "map level (sectors s') = map level (sectors s)"
    and h: "max_height s' = max_height s" unfolding same_frame_def by blast+
  have len: "length (sectors s') = length (sectors s)" using f by (rule same_frame_length)
  from t have lv: "map level (sectors s) = map int [1..<Suc (length (sectors s))]"
    and b: "int (length (sectors s)) \<le> max_height s" unfolding tower_ok_def by blast+
  show ?thesis unfolding tower_ok_def m h len using lv b by blast
qed


lemma action_repair_frame: "same_frame s (action_repair s)"
  by (simp add: action_repair_def same_frame_def split: option.splits)

lemma action_extinguish_frame: "same_frame s (action_extinguish s)"
  by (simp add: action_extinguish_def same_frame_def split: option.splits)

lemma action_boost_morale_frame: "same_frame s (action_boost_morale s)"
  by (simp add: action_boost_morale_def same_frame_def)

lemma action_emergency_rations_frame: "same_frame s (action_emergency_rations s)"
  by (simp add: action_emergency_rations_def same_frame_def)

lemma sorted_levels: "sorted (map int [1..<n])"
proof -
  have "sorted [1..<n]" by simp
  then show ?thesis
    unfolding sorted_map by (rule sorted_wrt_mono_rel [rotated]) simp
qed

lemma action_build_facts:
  "alive (fst (action_build a s rs)) = alive s"
  "max_height (fst (action_build a s rs)) = max_height s"
  "length (sectors s) \<le> length (sectors (fst (action_build a s rs)))"
  by (simp_all add: action_build_def Let_def split_beta)

lemma tower_ok_add_event [simp]: "tower_ok (add_event m c s) = tower_ok s"
  by (simp add: tower_ok_def)

lemma action_build_tower_ok:
  assumes "tower_ok s"
  shows "tower_ok (fst (action_build a s rs))"
proof -
  let ?n = "length (sectors s)"
  let ?new = "new_sector (int ?n + 1) (fst (build_type a)) (fst (randint 5 10 rs))"
  let ?built = "s\<lparr>materials := materials s - 80, sectors := sectors s @ [?new],
      current_dilemma := map_option (\<lambda>d. d\<lparr>target := sorted_pos (sectors s @ [?new]) (target d)\<rparr>)
        (current_dilemma s)\<rparr>"
  from assms have lv: "map level (sectors s) = map int [1..<Suc ?n]" by (simp add: tower_ok_def)
  have ap: "map level (sectors s @ [?new]) = map int [1..<Suc (Suc ?n)]"
    using lv by (simp add: new_sector_def del: upt_Suc) simp
  have "sorted (map int [1..<Suc (Suc ?n)])" by (rule sorted_levels)
  with ap have sk: "sort_key level (sectors s @ [?new]) = sectors s @ [?new]"
    by (simp only: sort_key_id_if_sorted)
  have ok: "int ?n + 1 \<le> max_height s \<Longrightarrow> tower_ok ?built"
    using ap by (simp add: tower_ok_def del: upt_Suc)
  show ?thesis
  proof (cases "int ?n + 1 > max_height s \<or> materials s < 80")
    case True
    then show ?thesis using assms by (auto simp: action_build_def Let_def)
  next
    case False
    then have "fst (action_build a s rs) =
        add_event (sym_crane @ ''  '' @ snd (build_type a) @ '' built on Level '' @ str_int (int ?n + 1))
          ''cyan'' ?built"
      using sk by (simp add: action_build_def Let_def split_beta)
    then show ?thesis using ok False by simp
  qed
qed

lemma process_action_cases:
  "process_action s a rs = (action_repair s, rs) \<or> process_action s a rs = (action_extinguish s, rs)
   \<or> process_action s a rs = action_build a s rs \<or> process_action s a rs = (action_boost_morale s, rs)
   \<or> process_action s a rs = (action_emergency_rations s, rs) \<or> process_action s a rs = (s, rs)"
  by (simp add: process_action_def)

lemma process_action_facts:
  "alive (fst (process_action s a rs)) = alive s"
  "max_height (fst (process_action s a rs)) = max_height s"
  "length (sectors s) \<le> length (sectors (fst (process_action s a rs)))"
  using process_action_cases [of s a rs]
    action_repair_frame [of s] action_extinguish_frame [of s] action_boost_morale_frame [of s]
    action_emergency_rations_frame [of s] action_build_facts [where a = a and s = s and rs = rs]
    same_frame_length [of s "action_repair s"] same_frame_length [of s "action_extinguish s"]
    same_frame_length [of s "action_boost_morale s"] same_frame_length [of s "action_emergency_rations s"]
  by (auto simp: same_frame_def)

lemma process_action_tower_ok: "tower_ok s \<Longrightarrow> tower_ok (fst (process_action s a rs))"
  using process_action_cases [of s a rs]
    action_repair_frame [of s] action_extinguish_frame [of s] action_boost_morale_frame [of s]
    action_emergency_rations_frame [of s] action_build_tower_ok [where a = a and s = s and rs = rs]
  by (auto intro: same_frame_tower_ok)

lemmas sym_defs = sym_bolt_def sym_warning_def sym_skull_def sym_collision_def sym_door_def
  sym_trophy_def sym_fire_def sym_globe_def sym_microbe_def sym_fist_def sym_present_def
  sym_busts_def sym_rice_def sym_check_def sym_wrench_def sym_cross_def sym_engine_def
  sym_crane_def sym_party_def sym_swords_def

lemmas rng_defs = draw_def random_below_def random_random_def randint_def uniform_def choice_def

lemmas setter_defs = set_health_def add_health_def set_workers_def set_on_fire_def set_fire_turns_def

lemma fresh_eq: "fresh = \<lparr>year = 1, month = 1, food = 150, power = 100, materials = 80,
    population = 85, morale = 65,
    sectors = [new_sector 1 POWER 8, new_sector 2 INDUSTRIAL 8, new_sector 3 RESIDENTIAL 8,
      new_sector 4 FARMS 8, new_sector 5 RESIDENTIAL 8, new_sector 6 FARMS 8,
      new_sector 7 POWER 8, new_sector 8 RESIDENTIAL 8],
    max_height = 12,
    citizens = map (\<lambda>n. \<lparr>name = n, role = ''Engineer'', location = 1, citizen_alive = True\<rparr>)
      [''Chen'', ''Maria'', ''Akeno'', ''Viktor'', ''Zara''],
    events = [(''Y'' @ str_int 1 @ ''M'' @ str_int 1 @ '': '' @ sym_bolt
                 @ '' The Spire awakens. Your people huddle in its shadow.'', ''cyan''),
              (''Y'' @ str_int 1 @ ''M'' @ str_int 1 @ '': '' @ sym_warning
                 @ ''  The Tower is unstable. Disasters will come. Be ready.'', ''yellow'')],
    current_dilemma = None, tension = 0,
    turns_since_crisis = 0, alive = True, victory_message = [],
    cursor = 5, building_mode = False\<rparr>"
  by (simp add: fresh_def new_Simulation_def new_GameState_def configs_def rng_defs add_event_def Let_def
    names_def roles_def new_sector_def)

lemma kept_same_frame: "kept a b \<Longrightarrow> same_frame a b"
  by (simp add: kept_def)

lemma kept_trans: "kept a b \<Longrightarrow> kept b c \<Longrightarrow> kept a c"
  unfolding kept_defs by (elim conjE) (simp only: simp_thms)

lemma same_frame_trans: "same_frame a b \<Longrightarrow> same_frame b c \<Longrightarrow> same_frame a c"
  unfolding same_frame_def by (elim conjE) (simp only: simp_thms)

lemma turn_middle_kept:
  assumes "propagate_disasters s2 rs2 = (s3, rs3)" "sector_decay s3 rs3 = (s4, rs4)"
    "morale_population s4 rs4 = (s5, rs5)"
  shows "kept s2 s5"
proof -
  have "kept s2 s3" using propagate_disasters_kept [of s2 rs2] assms(1) by simp
  moreover have "kept s3 s4" using sector_decay_kept [of s3 rs3] assms(2) by simp
  moreover have "kept s4 s5" using morale_population_kept [of s4 rs4] assms(3) by simp
  ultimately show ?thesis by (blast intro: kept_trans)
qed

lemma turn_start_facts:
  assumes "(if a \<noteq> ''wait'' then process_action (advance_time s) a rs else (advance_time s, rs)) = (s1, rs1)"
  shows "alive s1 = alive s" "max_height s1 = max_height s"
    "length (sectors s) \<le> length (sectors s1)" "tower_ok s \<Longrightarrow> tower_ok s1"
proof -
  let ?t = "advance_time s"
  have f: "same_frame s ?t" by (rule advance_time_frame)
  have l: "length (sectors ?t) = length (sectors s)" using f by (rule same_frame_length)
  have s1: "s1 = fst (process_action ?t a rs) \<or> s1 = ?t"
    using assms by (auto split: if_splits)
  show "alive s1 = alive s" using s1 f process_action_facts(1) [of ?t a rs]
    by (auto simp: same_frame_def)
  show "max_height s1 = max_height s" using s1 f process_action_facts(2) [of ?t a rs]
    by (auto simp: same_frame_def)
  show "length (sectors s) \<le> length (sectors s1)" using s1 l process_action_facts(3) [of ?t a rs]
    by auto
  show "tower_ok s \<Longrightarrow> tower_ok s1"
    using s1 same_frame_tower_ok [OF f] process_action_tower_ok [of ?t a rs] by auto
qed

lemma turn_until_pacing_facts:
  assumes "turn_until_pacing s a rs = (s', rs')"
  shows "alive s' = alive s" "max_height s' = max_height s"
    "length (sectors s) \<le> length (sectors s')" "tower_ok s \<Longrightarrow> tower_ok s'"
    "0 \<le> food s'" "0 \<le> power s'"
proof -
  obtain s1 rs1 where p: "(if a \<noteq> ''wait'' then process_action (advance_time s) a rs
      else (advance_time s, rs)) = (s1, rs1)" by fastforce
  let ?m = "consumption_phase (production_phase s1)"
  obtain s2 rs2 where c: "crisis_phase ?m rs1 = (s2, rs2)" by fastforce
  obtain s3 rs3 where d: "propagate_disasters s2 rs2 = (s3, rs3)" by fastforce
  obtain s4 rs4 where e: "sector_decay s3 rs3 = (s4, rs4)" by fastforce
  from assms p c d e have m: "morale_population s4 rs4 = (s', rs')"
    by (simp add: turn_until_pacing_def)
  have k: "kept s2 s'" using d e m by (rule turn_middle_kept)
  have "same_frame s1 (production_phase s1)" by (rule production_phase_frame)
  moreover have "same_frame (production_phase s1) ?m" by (rule consumption_phase_frame)
  moreover have "same_frame ?m s2" using crisis_phase_frame [of ?m rs1] c by simp
  ultimately have f: "same_frame s1 s'"
    using kept_same_frame [OF k] by (blast intro: same_frame_trans)
  have l: "length (sectors s') = length (sectors s1)" using f by (rule same_frame_length)
  note st = turn_start_facts [OF p]
  show "alive s' = alive s" using f st(1) by (simp add: same_frame_def)
  show "max_height s' = max_height s" using f st(2) by (simp add: same_frame_def)
  show "length (sectors s) \<le> length (sectors s')" using l st(3) by simp
  show "tower_ok s \<Longrightarrow> tower_ok s'" using st(4) same_frame_tower_ok [OF f] by blast
  have "0 \<le> food s2" "0 \<le> power s2" using crisis_phase_stock [of ?m rs1] c by simp_all
  then show "0 \<le> food s'" "0 \<le> power s'" using k by (simp_all add: kept_defs)
qed

lemma choice_Inr: "xs \<noteq> [] \<Longrightarrow> \<exists>y. choice xs rs = Inr y"
  by (simp add: choice_def split_beta)

lemma crisis_fire_returns: "sectors s \<noteq> [] \<Longrightarrow> \<exists>y. crisis_fire s rs = Inr y"
proof -
  assume "sectors s \<noteq> []"
  then have "[0..<length (sectors s)] \<noteq> []" by simp
  from choice_Inr [OF this, of rs] obtain i r1 where "choice [0..<length (sectors s)] rs = Inr (i, r1)"
    by (metis surj_pair)
  then show ?thesis by (simp add: crisis_fire_def)
qed

lemma crisis_riot_returns: "sectors s \<noteq> [] \<Longrightarrow> \<exists>y. crisis_riot s rs = Inr y"
proof -
  assume "sectors s \<noteq> []"
  then have "[0..<length (sectors s)] \<noteq> []" by simp
  from choice_Inr [OF this, of rs] obtain i r1 where "choice [0..<length (sectors s)] rs = Inr (i, r1)"
    by (metis surj_pair)
  then show ?thesis by (simp add: crisis_riot_def Let_def split_beta)
qed

lemma trigger_crisis_returns: "sectors s \<noteq> [] \<Longrightarrow> \<exists>y. trigger_crisis s rs = Inr y"
  using crisis_fire_returns [of s "snd (random_below 5 rs)"]
    crisis_riot_returns [of s "snd (random_below 5 rs)"]
  by (simp add: trigger_crisis_def split_beta)

lemma tension_pacing_returns: "sectors s \<noteq> [] \<Longrightarrow> \<exists>y. tension_pacing s rs = Inr y"
proof -
  assume ne: "sectors s \<noteq> []"
  let ?s1 = "s\<lparr>tension := tension s + 2.5\<rparr>"
  have "sectors ?s1 \<noteq> []" using ne by simp
  from trigger_crisis_returns [OF this, of "snd (crisis_due ?s1 rs)"]
  obtain s2 rs2 where "trigger_crisis ?s1 (snd (crisis_due ?s1 rs)) = Inr (s2, rs2)"
    by (metis surj_pair)
  then show ?thesis
    by (simp add: tension_pacing_def Let_def split_beta)
qed

lemma advance_turn_facts:
  assumes "advance_turn s a rs = Inr (s', rs')"
  shows "alive s' \<Longrightarrow> alive s" "max_height s' = max_height s" "tower_ok s \<Longrightarrow> tower_ok s'"
    "0 \<le> food s'" "0 \<le> power s'"
proof -
  obtain s1 rs1 where u: "turn_until_pacing s a rs = (s1, rs1)" by fastforce
  from assms u obtain s2 rs2 where t: "tension_pacing s1 rs1 = Inr (s2, rs2)"
    and w: "turn_after_pacing s2 rs2 = (s', rs')"
    by (auto simp: advance_turn_def split: sum.splits)
  note a = turn_until_pacing_facts [OF u]
  have k: "kept s1 s2" using t by (rule tension_pacing_kept)
  note b = turn_after_pacing_facts [OF w]
  show "alive s' \<Longrightarrow> alive s" using a(1) k b(5) by (simp add: kept_defs)
  show "max_height s' = max_height s" using a(2) k b(1) by (simp add: kept_defs)
  have "same_frame s2 s'" if "alive s' = alive s2" using that b(1,2) by (simp add: same_frame_def)
  have t2: "tower_ok s1 \<Longrightarrow> tower_ok s2" using same_frame_tower_ok [OF kept_same_frame [OF k]] .
  have l: "length (sectors s') = length (sectors s2)" using b(2) by (rule map_eq_imp_length_eq)
  have t3: "tower_ok s2 \<Longrightarrow> tower_ok s'"
    unfolding tower_ok_def b(1) b(2) l by blast
  show "tower_ok s \<Longrightarrow> tower_ok s'" using a(4) t2 t3 by blast
  show "0 \<le> food s'" using a(5) k b(3) by (simp add: kept_defs)
  show "0 \<le> power s'" using a(6) k b(4) by (simp add: kept_defs)
qed

lemma advance_turn_returns: "sectors s \<noteq> [] \<Longrightarrow> \<exists>y. advance_turn s a rs = Inr y"
proof -
  assume ne: "sectors s \<noteq> []"
  obtain s1 rs1 where u: "turn_until_pacing s a rs = (s1, rs1)" by fastforce
  have "length (sectors s) \<le> length (sectors s1)" using u by (rule turn_until_pacing_facts(3))
  with ne have "sectors s1 \<noteq> []" by auto
  from tension_pacing_returns [OF this, of rs1] obtain y where "tension_pacing s1 rs1 = Inr y" by blast
  then show ?thesis using u by (cases y) (simp add: advance_turn_def)
qed

lemma initialize_tower_levels: "map level (fst (initialize_tower cs rs)) = map fst cs"
  by (induction cs arbitrary: rs) (auto simp: split_beta new_sector_def)

lemma new_Simulation_tower_ok: "tower_ok (fst (new_Simulation rs))"
proof -
  let ?secs = "fst (initialize_tower configs rs)"
  have lv: "map level ?secs = map fst configs" by (rule initialize_tower_levels)
  then have "length ?secs = length configs" by (metis length_map)
  then have len: "length ?secs = 8" by (simp add: configs_def)
  have "map fst configs = map int [1..<Suc 8]" by (simp add: configs_def upt_rec)
  with lv len show ?thesis
    by (simp add: new_Simulation_def new_GameState_def split_beta tower_ok_def del: upt_Suc)
qed

lemma save_sector_frame: "same_frame s (save_sector t s)"
  by (simp add: save_sector_def same_frame_def Let_def)

lemma abandon_sector_frame: "same_frame s (abandon_sector t s)"
  by (simp add: abandon_sector_def same_frame_def Let_def)

lemma tower_ok_fields:
  "tower_ok (s\<lparr>current_dilemma := d\<rparr>) = tower_ok s" "tower_ok (s\<lparr>cursor := c\<rparr>) = tower_ok s"
  by (simp_all add: tower_ok_def)

lemma reachable_tower_ok: "reachable s \<Longrightarrow> tower_ok s"
proof (induction rule: reachable.induct)
  case (created rs)
  show ?case by (rule new_Simulation_tower_ok)
next
  case (turn s action rs s' rs')
  then show ?case using advance_turn_facts(3) by blast
next
  case (choice_a s d)
  then show ?case
    using same_frame_tower_ok [OF save_sector_frame] by (simp add: tower_ok_fields consequence_a_def)
next
  case (choice_b s d)
  then show ?case
    using same_frame_tower_ok [OF abandon_sector_frame] by (simp add: tower_ok_fields consequence_b_def)
next
  case (move_cursor s c)
  then show ?case by (simp add: tower_ok_fields)
qed

lemma tower_ok_distinct: "tower_ok s \<Longrightarrow> distinct (map level (sectors s))"
  unfolding tower_ok_def by (elim conjE) (simp only: distinct_map distinct_upt, simp add: inj_on_def)

lemmas turn_defs = advance_turn_def turn_until_pacing_def turn_after_pacing_def advance_time_def
  process_action_def action_repair_def action_extinguish_def action_build_def build_type_def
  action_boost_morale_def action_emergency_rations_def production_phase_def consumption_phase_def
  crisis_phase_def starvation_def blackout_def propagate_disasters_def propagate_sector_def
  fire_spread_def fire_burn_out_def spread_to_def sector_decay_def decay_sector_def collapse_below_def
  morale_population_def citizens_flee_def morale_recovery_def population_growth_def
  tension_pacing_def crisis_due_def trigger_crisis_def crisis_earthquake_def crisis_fire_def
  crisis_disease_def crisis_structural_failure_def crisis_riot_def trigger_minor_event_def
  minor_event_roll_def dilemma_roll_def create_dilemma_def win_lose_def check_extinction_def
  check_total_collapse_def check_legendary_def is_functional_def get_sector_def upd_sector_def
  py_int_def new_sector_def sorted_pos_def add_event_def Let_def

lemma starving_turn:
  "(case advance_turn starving ''wait'' [0, 0, 0.99, 0.99] of Inl e \<Rightarrow> False
    | Inr (s', rs') \<Rightarrow> food s' = 0 \<and> power s' = 0 \<and> population s' = 72 \<and> morale s' = 26.5)"
  by (simp add: starving_def fresh_eq turn_defs rng_defs setter_defs)

lemma dead_turn:
  "(case advance_turn dead ''wait'' [0.99, 0.99] of Inl e \<Rightarrow> False
    | Inr (s', rs') \<Rightarrow> year s' = 2 \<and> victory_message s' = msg_extinction s' \<and> \<not> alive s')"
  by (simp add: dead_def fresh_eq turn_defs rng_defs setter_defs msg_extinction_def)

lemma dead_turn_refugees:
  "(case advance_turn dead ''wait'' [0, 0.25, 0, 0.99] of Inl e \<Rightarrow> False
    | Inr (s', rs') \<Rightarrow> population s' = 5)"
  by (simp add: dead_def fresh_eq turn_defs rng_defs setter_defs msg_extinction_def)

lemma build_turn:
  "(case advance_turn fresh ''build'' [0.99, 0.99, 0.99] of Inl e \<Rightarrow> False
    | Inr (s', rs') \<Rightarrow> length (sectors s') = 9 \<and> materials s' = 16
        \<and> sector_type (sectors s' ! 8) = RESIDENTIAL)"
  by (simp add: fresh_eq turn_defs rng_defs setter_defs)

lemma wait_turn:
  "(case advance_turn fresh ''wait'' [0.99, 0.99, 0.99] of Inl e \<Rightarrow> False
    | Inr (s', rs') \<Rightarrow> length (sectors s') = 8 \<and> materials s' = 96)"
  by (simp add: fresh_eq turn_defs rng_defs setter_defs)

lemma str_int_digits: "str_int 1 = ''1''" "str_int 2 = ''2''"
  by code_simp+

lemma stuck_eq: "stuck = cracked\<lparr>current_dilemma := Some level5_dilemma\<rparr>"
  by (simp add: stuck_def cracked_def fresh_eq create_dilemma_def rng_defs setter_defs new_sector_def
      level5_dilemma_def type_label_def Let_def)

lemma stuck_repair_turn:
  "(case advance_turn stuck ''repair'' [0.99] of Inl e \<Rightarrow> False
    | Inr (s', rs') \<Rightarrow> materials s' = 56 \<and> health (sectors s' ! 4) = 88.5 \<and> month s' = 2)"
  by (simp add: stuck_eq cracked_def fresh_eq turn_defs rng_defs setter_defs)

lemma poor_repair_turn:
  "(case advance_turn poor ''repair'' [0.99, 0.99] of Inl e \<Rightarrow> False
    | Inr (s', rs') \<Rightarrow> materials s' = 46 \<and> health (sectors s' ! 0) = 98.5)"
  by (simp add: poor_def fresh_eq turn_defs rng_defs setter_defs)



text \<open>What each operation does to morale.\<close>

lemma for_each_morale:
  assumes "\<And>x s rs. morale (fst (body x s rs)) = morale s"
  shows "morale (fst (for_each xs body s rs)) = morale s"
proof (induction xs arbitrary: s rs)
  case Nil
  show ?case by simp
next
  case (Cons x xs)
  obtain s1 rs1 where b: "body x s rs = (s1, rs1)" by (cases "body x s rs")
  have "morale s1 = morale s" using assms [of x s rs] b by simp
  moreover have "morale (fst (for_each xs body s1 rs1)) = morale s1" by (rule Cons.IH)
  ultimately show ?case using b by simp
qed

lemma spread_to_morale: "morale (fst (spread_to l s rs)) = morale s"
  by (simp add: spread_to_def split_beta split: option.splits)

lemma fire_spread_morale: "morale (fst (fire_spread i s rs)) = morale s"
  by (simp add: fire_spread_def split_beta for_each_morale spread_to_morale)

lemma fire_burn_out_morale: "morale (fst (fire_burn_out i s rs)) = morale s"
  by (simp add: fire_burn_out_def split_beta)

lemma propagate_sector_morale: "morale (fst (propagate_sector i s rs)) = morale s"
  by (simp add: propagate_sector_def split_beta Let_def fire_burn_out_morale fire_spread_morale)

lemma propagate_disasters_morale: "morale (fst (propagate_disasters s rs)) = morale s"
  by (simp add: propagate_disasters_def for_each_morale propagate_sector_morale)

lemma collapse_below_morale: "morale (fst (collapse_below i s rs)) = morale s"
  by (simp add: collapse_below_def split_beta Let_def split: option.splits)

lemma decay_sector_morale: "morale (fst (decay_sector i s rs)) = morale s"
  by (simp add: decay_sector_def split_beta Let_def collapse_below_morale)

lemma sector_decay_morale: "morale (fst (sector_decay s rs)) = morale s"
  by (simp add: sector_decay_def for_each_morale decay_sector_morale)

lemma process_action_morale:
  "morale (fst (process_action s a rs)) =
     (if a = ''boost_morale'' \<and> food s \<ge> 40 \<and> power s \<ge> 20 then morale s + 30
      else if a = ''emergency_rations'' \<and> population s > 30 then morale s - 20
      else morale s)"
  by (simp add: process_action_def action_repair_def action_extinguish_def action_build_def
      action_boost_morale_def action_emergency_rations_def Let_def split_beta split: option.splits)

lemma starvation_morale: "morale (starvation s) = (if food s < 0 then morale s - 25 else morale s)"
  by (simp add: starvation_def Let_def)

lemma blackout_morale:
  "morale (fst (blackout s rs)) = (if power s < 0 then morale s - 15 else morale s)"
  by (simp add: blackout_def Let_def split_beta)

lemma morale_recovery_morale:
  "morale (morale_recovery s) = (if morale s < 60 then morale s + 1.5 else morale s)"
  by (simp add: morale_recovery_def)

lemma morale_population_morale:
  "morale (fst (morale_population s rs)) = (if morale s < 60 then morale s + 1.5 else morale s)"
  by (simp add: morale_population_def citizens_flee_def population_growth_def morale_recovery_def
      split_beta)

lemma earthquake_hits_morale: "morale (fst (earthquake_hits hit s c rs)) = morale s"
proof (induction hit arbitrary: s c rs)
  case Nil
  show ?case by simp
next
  case (Cons i hit)
  show ?case
    using Cons.IH [of "upd_sector i (add_health (- of_int (fst (randint 20 45 rs)))) s"]
    by (simp add: split_beta)
qed

lemma crisis_earthquake_morale: "morale (fst (crisis_earthquake s rs)) = morale s - 20"
  by (simp add: crisis_earthquake_def split_beta earthquake_hits_morale)

lemma crisis_disease_morale: "morale (fst (crisis_disease s rs)) = morale s - 30"
  by (simp add: crisis_disease_def split_beta Let_def)

lemma failure_targets_morale: "morale (fst (failure_targets ts s c)) = morale s"
proof (induction ts arbitrary: s c)
  case Nil
  show ?case by simp
next
  case (Cons i ts)
  show ?case
    using Cons.IH [of "upd_sector i (set_workers 0) (upd_sector i (set_health 0) s)"]
    by simp
qed

lemma crisis_structural_failure_morale:
  "morale (fst (crisis_structural_failure s rs)) = morale s"
  by (simp add: crisis_structural_failure_def split_beta failure_targets_morale)

lemma crisis_fire_morale: "crisis_fire s rs = Inr (c, rc) \<Longrightarrow> morale c = morale s"
  by (auto simp: crisis_fire_def split: sum.splits)

lemma crisis_riot_morale: "crisis_riot s rs = Inr (c, rc) \<Longrightarrow> morale c = morale s - 25"
  by (auto simp: crisis_riot_def Let_def split_beta split: sum.splits)

lemma trigger_crisis_morale:
  "trigger_crisis s rs = Inr (c, rc) \<Longrightarrow>
     morale c = morale s - [20, 0, 30, 0, 25] ! fst (random_below 5 rs)"
proof -
  assume t: "trigger_crisis s rs = Inr (c, rc)"
  obtain k r1 where k: "random_below 5 rs = (k, r1)" by (cases "random_below 5 rs")
  have "k < 5" using random_below_lt [OF _ k] by simp
  then consider "k = 0" | "k = 1" | "k = 2" | "k = 3" | "k = 4" by linarith
  then show ?thesis
  proof cases
    case 1
    then show ?thesis using t k crisis_earthquake_morale [of s r1]
      by (auto simp: trigger_crisis_def)
  next
    case 2
    then show ?thesis using t k crisis_fire_morale [of s r1 c rc]
      by (auto simp: trigger_crisis_def)
  next
    case 3
    then show ?thesis using t k crisis_disease_morale [of s r1]
      by (auto simp: trigger_crisis_def)
  next
    case 4
    then show ?thesis using t k crisis_structural_failure_morale [of s r1]
      by (auto simp: trigger_crisis_def)
  next
    case 5
    then show ?thesis using t k crisis_riot_morale [of s r1 c rc]
      by (auto simp: trigger_crisis_def)
  qed
qed

lemma tension_pacing_morale:
  assumes "tension_pacing s rs = Inr (p, rp)"
  shows "morale p = morale s -
     (if fst (crisis_due (s\<lparr>tension := tension s + 2.5\<rparr>) rs)
      then [20, 0, 30, 0, 25] ! fst (random_below 5 (snd (crisis_due (s\<lparr>tension := tension s + 2.5\<rparr>) rs)))
      else 0)"
proof (cases "fst (crisis_due (s\<lparr>tension := tension s + 2.5\<rparr>) rs)")
  case True
  let ?s1 = "s\<lparr>tension := tension s + 2.5\<rparr>"
  from assms True obtain c rc where t: "trigger_crisis ?s1 (snd (crisis_due ?s1 rs)) = Inr (c, rc)"
    and p: "p = c\<lparr>tension := 0, turns_since_crisis := 0\<rparr>"
    by (auto simp: tension_pacing_def Let_def split_beta split: sum.splits)
  from trigger_crisis_morale [OF t] p True show ?thesis by simp
next
  case False
  with assms show ?thesis by (auto simp: tension_pacing_def Let_def split_beta)
qed

lemma trigger_minor_event_morale: "morale (fst (trigger_minor_event s rs)) = morale s"
  by (simp add: trigger_minor_event_def split_beta)

lemma turn_after_pacing_morale: "morale (fst (turn_after_pacing s rs)) = morale s"
  by (simp add: turn_after_pacing_def minor_event_roll_def dilemma_roll_def create_dilemma_def
      trigger_minor_event_morale win_lose_def check_legendary_def check_total_collapse_def
      check_extinction_def split_beta Let_def)

lemma consequence_morale:
  "morale (consequence_a d s) = morale s" "morale (consequence_b d s) = morale s - 15"
  by (simp_all add: consequence_a_def consequence_b_def save_sector_def abandon_sector_def Let_def)

lemma advance_time_fields:
  "food (advance_time s) = food s" "power (advance_time s) = power s"
  "population (advance_time s) = population s" "morale (advance_time s) = morale s"
  by (simp_all add: advance_time_def Let_def)

lemma turn_start_morale:
  "morale (fst (if a \<noteq> ''wait'' then process_action (advance_time s) a rs else (advance_time s, rs))) =
     (if a = ''boost_morale'' \<and> food s \<ge> 40 \<and> power s \<ge> 20 then morale s + 30
      else if a = ''emergency_rations'' \<and> population s > 30 then morale s - 20
      else morale s)"
  by (simp add: process_action_morale advance_time_fields)

lemma crisis_phase_morale:
  "morale (fst (crisis_phase c rs)) =
     morale c - (if food c < 0 then 25 else 0) - (if power c < 0 then 15 else 0)"
  by (simp add: crisis_phase_def blackout_morale starvation_morale starvation_food)

lemma production_consumption_morale [simp]:
  "morale (consumption_phase (production_phase s)) = morale s"
  by (simp add: consumption_phase_def production_phase_def split_beta)

lemma turn_until_pacing_morale:
  "morale (fst (turn_until_pacing s a rs)) =
     (let s1 = fst (if a \<noteq> ''wait'' then process_action (advance_time s) a rs else (advance_time s, rs));
          c = consumption_phase (production_phase s1);
          m = morale s1 - (if food c < 0 then 25 else 0) - (if power c < 0 then 15 else 0)
      in if m < 60 then m + 1.5 else m)"
  by (simp only: turn_until_pacing_def split_beta Let_def morale_population_morale
      sector_decay_morale propagate_disasters_morale crisis_phase_morale
      production_consumption_morale)

lemma advance_turn_morale:
  assumes "advance_turn s a rs = Inr (s', rs')"
  shows "(let (m, rm) = turn_until_pacing s a rs;
              (due, r1) = crisis_due (m\<lparr>tension := tension m + 2.5\<rparr>) rm
          in morale s' = morale m - (if due then [20, 0, 30, 0, 25] ! fst (random_below 5 r1) else 0))"
proof -
  obtain m rm where u: "turn_until_pacing s a rs = (m, rm)" by fastforce
  from assms u obtain p rp where t: "tension_pacing m rm = Inr (p, rp)"
    and w: "turn_after_pacing p rp = (s', rs')"
    by (auto simp: advance_turn_def split: sum.splits)
  have "morale s' = morale p" using turn_after_pacing_morale [of p rp] w by simp
  with tension_pacing_morale [OF t] u show ?thesis by (simp add: split_beta)
qed

lemma overdue_crises:
  "(case crisis_riot overdue [0, 0] of Inl e \<Rightarrow> False | Inr (c, rc) \<Rightarrow> morale c = 40)"
  "(case tension_pacing overdue [0, 0.5, 0] of Inl e \<Rightarrow> False | Inr (p, rp) \<Rightarrow> morale p = 35)"
  "(case advance_turn overdue ''wait'' [0, 0.5, 0, 0.99, 0.99] of Inl e \<Rightarrow> False
    | Inr (s', rs') \<Rightarrow> morale s' = 35)"
  by (simp_all add: overdue_def fresh_eq turn_defs rng_defs setter_defs)

lemma reachable_play: "reachable s \<Longrightarrow> play actions s rs = Inr (s', rs') \<Longrightarrow> reachable s'"
proof (induction actions arbitrary: s rs)
  case Nil
  then show ?case by simp
next
  case (Cons a actions)
  from Cons.prems(2) obtain s1 rs1 where t: "advance_turn s a rs = Inr (s1, rs1)"
    and p: "play actions s1 rs1 = Inr (s', rs')"
    by (auto split: sum.splits)
  have "reachable s1" using Cons.prems(1) t by (rule reachable.turn)
  then show ?case using p by (rule Cons.IH)
qed

lemma reachable_fresh: "reachable fresh"
  unfolding fresh_def by (rule reachable.created)

lemma festival_run:
  "(case play [''boost_morale''] fresh [0, 0.75, 0.99, 0.99, 0, 0.99, 0.99] of Inl e \<Rightarrow> False
    | Inr (s0, rs0) \<Rightarrow> morale s0 = 95 \<and> food s0 = 165 \<and> power s0 = 77
        \<and> (case advance_turn s0 ''boost_morale'' rs0 of Inl e \<Rightarrow> False
            | Inr (s1, rs1) \<Rightarrow> morale s1 = 125))"
  by (simp add: fresh_eq turn_defs rng_defs setter_defs)

lemma plague_run:
  "(case play [''emergency_rations'', ''emergency_rations'', ''emergency_rations'',
       ''wait'', ''wait'', ''wait'', ''wait'', ''wait''] fresh
     [0.99, 0.99,  0, 0.99, 0.99,  0, 0.99, 0.99,  0, 0.99, 0.99, 0, 0.99, 0.99, 0, 0.99, 0.99,
      0, 0.99, 0.99, 0, 0.99, 0.99, 0, 0, 0.5, 0, 0.99, 0.99] of Inl e \<Rightarrow> False
    | Inr (s0, rs0) \<Rightarrow> morale s0 = 17
        \<and> (case turn_until_pacing s0 ''wait'' rs0 of (m, rm) \<Rightarrow> morale m = 18.5
             \<and> (case crisis_due (m\<lparr>tension := tension m + 2.5\<rparr>) rm of (due, r1) \<Rightarrow>
                   due \<and> fst (random_below 5 r1) = 2))
        \<and> (case advance_turn s0 ''wait'' rs0 of Inl e \<Rightarrow> False
            | Inr (s1, rs1) \<Rightarrow> morale s1 = - 11.5))"
  by (simp add: fresh_eq turn_defs rng_defs setter_defs)

lemma advance_turn_length:
  assumes "advance_turn s a rs = Inr (s', rs')"
  shows "length (sectors s) \<le> length (sectors s')"
proof -
  obtain s1 rs1 where u: "turn_until_pacing s a rs = (s1, rs1)" by fastforce
  from assms u obtain s2 rs2 where t: "tension_pacing s1 rs1 = Inr (s2, rs2)"
    and w: "turn_after_pacing s2 rs2 = (s', rs')"
    by (auto simp: advance_turn_def split: sum.splits)
  have "length (sectors s) \<le> length (sectors s1)" using u by (rule turn_until_pacing_facts(3))
  moreover have "length (sectors s2) = length (sectors s1)"
    using same_frame_length [OF kept_same_frame [OF tension_pacing_kept [OF t]]] .
  moreover have "length (sectors s') = length (sectors s2)"
    using turn_after_pacing_facts(2) [OF w] by (rule map_eq_imp_length_eq)
  ultimately show ?thesis by simp
qed

lemma advance_turns_returns: "sectors s \<noteq> [] \<Longrightarrow> \<exists>y. advance_turns n s a rs = Inr y"
proof (induction n arbitrary: s rs)
  case 0
  show ?case by simp
next
  case (Suc n)
  from advance_turn_returns [OF Suc.prems, of a rs] obtain s1 rs1
    where t: "advance_turn s a rs = Inr (s1, rs1)" by (metis surj_pair)
  have "length (sectors s) \<le> length (sectors s1)" using t by (rule advance_turn_length)
  with Suc.prems have "sectors s1 \<noteq> []" by auto
  from Suc.IH [OF this, of rs1] show ?case using t by simp
qed

section \<open>The claims\<close>

text \<open>
  C1 (amended). The three end conditions are three independent checks run in the order
  extinction, total collapse, year 50, each overwriting \<open>victory_message\<close>: the last
  one that matches decides the message. Year 50 wins over everything, zero functional
  sectors wins over extinction, and extinction shows only when neither of the others
  matches; when none matches the state is unchanged.
\<close>

theorem win_lose_last_match_wins:
  "(year s \<ge> 50 \<longrightarrow>
       victory_message (win_lose s) = msg_legendary (s\<lparr>population := max 0 (population s)\<rparr>)
       \<and> \<not> alive (win_lose s))
   \<and> (year s < 50 \<and> filter is_functional (sectors s) = [] \<longrightarrow>
       victory_message (win_lose s) = msg_total_collapse s \<and> \<not> alive (win_lose s))
   \<and> (year s < 50 \<and> filter is_functional (sectors s) \<noteq> [] \<and> population s \<le> 0 \<longrightarrow>
       victory_message (win_lose s) = msg_extinction s \<and> \<not> alive (win_lose s))
   \<and> (year s < 50 \<and> filter is_functional (sectors s) \<noteq> [] \<and> population s > 0 \<longrightarrow>
       win_lose s = s)"
  by (simp add: win_lose_def check_legendary_def check_total_collapse_def check_extinction_def
      msg_legendary_def msg_total_collapse_def msg_extinction_def Let_def max_def)

text \<open>The four cases of C1 (amended) at four concrete states.\<close>

theorem win_lose_last_match_wins_witness:
  "year dead50 \<ge> 50 \<and> victory_message (win_lose dead50) = msg_legendary dead50
   \<and> \<not> alive (win_lose dead50)
   \<and> year ruined < 50 \<and> filter is_functional (sectors ruined) = []
   \<and> victory_message (win_lose ruined) = msg_total_collapse ruined \<and> \<not> alive (win_lose ruined)
   \<and> year extinct < 50 \<and> filter is_functional (sectors extinct) \<noteq> [] \<and> population extinct \<le> 0
   \<and> victory_message (win_lose extinct) = msg_extinction extinct \<and> \<not> alive (win_lose extinct)
   \<and> year fresh < 50 \<and> filter is_functional (sectors fresh) \<noteq> [] \<and> population fresh > 0
   \<and> win_lose fresh = fresh"
  using win_lose_last_match_wins [of dead50] win_lose_last_match_wins [of ruined]
    win_lose_last_match_wins [of extinct] win_lose_last_match_wins [of fresh]
  by (simp add: dead50_def ruined_def extinct_def fresh_eq is_functional_def new_sector_def
      set_health_def msg_legendary_def)

text \<open>
  C1 as stated fails: with population 0 in year 50 the message is the year-50 one, not
  the extinction one.
\<close>

theorem first_match_wins_counterexample:
  "population dead50 \<le> 0
   \<and> victory_message (win_lose dead50) \<noteq> msg_extinction (check_extinction dead50)
   \<and> victory_message (win_lose dead50) = msg_legendary dead50"
  by (simp add: dead50_def fresh_eq win_lose_def check_legendary_def check_total_collapse_def
      check_extinction_def msg_legendary_def msg_total_collapse_def msg_extinction_def Let_def
      sym_defs is_functional_def new_sector_def)

text \<open>
  C2 (amended). The engine has no dilemma gate: \<open>advance_turn\<close> never reads
  \<open>current_dilemma\<close> before resolving the action. The gate is in the key handlers of
  SpireApp: while a dilemma is outstanding, the handlers for repair, extinguish, build,
  festival, rations and wait return at once and leave the whole application state,
  World State included, unchanged.
\<close>

theorem dilemma_gate_in_handlers:
  "current_dilemma (sim app) \<noteq> None \<Longrightarrow>
     action_do_repair app rs = Inr (app, rs) \<and> action_do_extinguish app rs = Inr (app, rs)
     \<and> action_do_build app = app \<and> action_do_morale app rs = Inr (app, rs)
     \<and> action_do_rations app rs = Inr (app, rs) \<and> action_do_wait app rs = Inr (app, rs)"
  by (simp add: action_do_repair_def action_do_extinguish_def action_do_build_def
      action_do_morale_def action_do_rations_def action_do_wait_def)

text \<open>The gate of C2 (amended) at an application whose simulation has a dilemma pending.\<close>

theorem dilemma_gate_in_handlers_witness:
  "current_dilemma (sim stuck_app) \<noteq> None
   \<and> action_do_repair stuck_app [0.5] = Inr (stuck_app, [0.5])
   \<and> action_do_extinguish stuck_app [0.5] = Inr (stuck_app, [0.5])
   \<and> action_do_build stuck_app = stuck_app
   \<and> action_do_morale stuck_app [0.5] = Inr (stuck_app, [0.5])
   \<and> action_do_rations stuck_app [0.5] = Inr (stuck_app, [0.5])
   \<and> action_do_wait stuck_app [0.5] = Inr (stuck_app, [0.5])"
  using dilemma_gate_in_handlers [of stuck_app "[0.5]"]
  by (simp add: stuck_app_def stuck_eq)

text \<open>
  C2 as stated fails: with a dilemma outstanding, \<open>advance_turn "repair"\<close> spends the
  materials, repairs the sector at the cursor and advances the clock.
\<close>

theorem engine_ignores_dilemma_counterexample:
  "current_dilemma stuck \<noteq> None
   \<and> (case advance_turn stuck ''repair'' [0.99] of Inl e \<Rightarrow> False
       | Inr (s', rs') \<Rightarrow> materials s' \<noteq> materials stuck
           \<and> health (sectors s' ! 4) \<noteq> health (sectors stuck ! 4) \<and> month s' \<noteq> month stuck)"
  using stuck_repair_turn
  by (auto simp: stuck_eq cracked_def fresh_eq new_sector_def set_health_def split: sum.splits)

text \<open>
  C3 (amended). Once \<open>alive\<close> is false, no number of further identical
  \<open>advance_turn\<close> calls sets it back to true; and the calls do return whenever the
  tower has a sector. (Population, year and victory message are not frozen by the
  engine.)
\<close>

theorem dead_stays_dead:
  "\<not> alive s \<Longrightarrow>
     (advance_turns n s action rs = Inr (s', rs') \<longrightarrow> \<not> alive s')
     \<and> (sectors s \<noteq> [] \<longrightarrow> (\<exists>y. advance_turns n s action rs = Inr y))"
proof (intro conjI impI)
  assume "sectors s \<noteq> []"
  then show "\<exists>y. advance_turns n s action rs = Inr y" by (rule advance_turns_returns)
next
  assume "\<not> alive s" and "advance_turns n s action rs = Inr (s', rs')"
  then show "\<not> alive s'"
  proof (induction n arbitrary: s rs)
    case 0
    then show ?case by simp
  next
    case (Suc n)
    from Suc.prems(2) obtain s1 rs1 where a: "advance_turn s action rs = Inr (s1, rs1)"
      and b: "advance_turns n s1 action rs1 = Inr (s', rs')"
      by (auto split: sum.splits)
    have "\<not> alive s1" using advance_turn_facts(1) [OF a] Suc.prems(1) by blast
    then show ?case using b by (rule Suc.IH)
  qed
qed

text \<open>C3 (amended) at a dead state, three turns on.\<close>

theorem dead_stays_dead_witness:
  "\<not> alive dead \<and> sectors dead \<noteq> []
   \<and> (\<exists>s' rs'. advance_turns 3 dead ''wait'' [0.99, 0.99] = Inr (s', rs') \<and> \<not> alive s')"
proof -
  have d: "\<not> alive dead" and e: "sectors dead \<noteq> []" by (simp_all add: dead_def fresh_eq)
  from dead_stays_dead [OF d, of 3 "''wait''" "[0.99, 0.99]"] e
  obtain s' rs' where n: "advance_turns 3 dead ''wait'' [0.99, 0.99] = Inr (s', rs')"
    by (metis surj_pair)
  from dead_stays_dead [OF d, of 3 "''wait''" "[0.99, 0.99]" s' rs'] n d e show ?thesis by blast
qed

text \<open>
  C3 as stated fails: on a dead state one more \<open>advance_turn\<close> moves the year from 1
  to 2 and rewrites the victory message, and with a refugee event it raises the
  population from 0 to 5.
\<close>

theorem dead_state_changes_counterexample:
  "\<not> alive dead
   \<and> (case advance_turn dead ''wait'' [0.99, 0.99] of Inl e \<Rightarrow> False
       | Inr (s', rs') \<Rightarrow> year s' \<noteq> year dead \<and> victory_message s' \<noteq> victory_message dead)
   \<and> (case advance_turn dead ''wait'' [0, 0.25, 0, 0.99] of Inl e \<Rightarrow> False
       | Inr (s', rs') \<Rightarrow> population s' \<noteq> population dead)"
  using dead_turn dead_turn_refugees
  by (auto simp: dead_def fresh_eq msg_extinction_def str_int_digits split: sum.splits)

text \<open>
  C4. After every call of \<open>advance_turn\<close>, whatever the action, the prior state and
  the random draws, \<open>food\<close> and \<open>power\<close> are not negative; and the call does
  return whenever the tower has a sector.
\<close>

theorem advance_turn_food_power_nonneg:
  "(advance_turn s action rs = Inr (s', rs') \<longrightarrow> 0 \<le> food s' \<and> 0 \<le> power s')
   \<and> (sectors s \<noteq> [] \<longrightarrow> (\<exists>y. advance_turn s action rs = Inr y))"
  using advance_turn_facts(4,5) [of s action rs s' rs'] advance_turn_returns [of s action rs]
  by blast

text \<open>
  C4 at a state whose consumption drives both pools below zero during the turn.
\<close>

theorem advance_turn_food_power_nonneg_witness:
  "sectors starving \<noteq> []
   \<and> (\<exists>s' rs'. advance_turn starving ''wait'' [0, 0, 0.99, 0.99] = Inr (s', rs')
     \<and> 0 \<le> food s' \<and> 0 \<le> power s' \<and> food s' = 0 \<and> power s' = 0 \<and> population s' = 72)"
proof -
  have e: "sectors starving \<noteq> []" by (simp add: starving_def fresh_eq)
  from starving_turn obtain s' rs'
    where t: "advance_turn starving ''wait'' [0, 0, 0.99, 0.99] = Inr (s', rs')"
    and v: "food s' = 0" "power s' = 0" "population s' = 72"
    by (auto split: sum.splits)
  from advance_turn_food_power_nonneg [of starving "''wait''" "[0, 0, 0.99, 0.99]" s' rs'] t v e
  show ?thesis by blast
qed

text \<open>
  C5 (amended). With \<open>materials < 40\<close>, the action-resolution phase of a repair leaves
  materials and every sector unchanged and only appends the rejection to the log. (The
  rest of the turn still runs: production and decay change both.)
\<close>

theorem repair_unaffordable_action_phase:
  "materials s < 40 \<Longrightarrow>
     process_action s ''repair'' rs = (add_event (sym_cross @ '' Need 40 materials'') ''red'' s, rs)
     \<and> materials (fst (process_action s ''repair'' rs)) = materials s
     \<and> sectors (fst (process_action s ''repair'' rs)) = sectors s"
  by (simp add: process_action_def action_repair_def split: option.splits)

text \<open>C5 (amended) at a state with 30 materials.\<close>

theorem repair_unaffordable_action_phase_witness:
  "materials poor < 40
   \<and> process_action poor ''repair'' [] = (add_event (sym_cross @ '' Need 40 materials'') ''red'' poor, [])
   \<and> materials (fst (process_action poor ''repair'' [])) = 30
   \<and> sectors (fst (process_action poor ''repair'' [])) = sectors poor"
  using repair_unaffordable_action_phase [of poor "[]"]
  by (simp add: poor_def fresh_eq)

text \<open>
  C5 as stated fails: after the whole \<open>advance_turn "repair"\<close> with 30 materials,
  materials are 46 and the health of the first sector is 98.5.
\<close>

theorem repair_unaffordable_turn_counterexample:
  "materials poor < 40
   \<and> (case advance_turn poor ''repair'' [0.99, 0.99] of Inl e \<Rightarrow> False
       | Inr (s', rs') \<Rightarrow> materials s' \<noteq> materials poor
           \<and> health (sectors s' ! 0) \<noteq> health (sectors poor ! 0))"
  using poor_repair_turn
  by (auto simp: poor_def fresh_eq new_sector_def split: sum.splits)

text \<open>
  C6 (amended). Every action string that is none of repair, extinguish, boost_morale and
  emergency_rations and does not start with "build" is resolved as a no-op, and the
  turn is exactly the turn of "wait" on the same state and draws. Whatever the action
  string, \<open>advance_turn\<close> returns a next state whenever the tower has a sector.
\<close>

theorem unrecognized_action_is_wait:
  "(action \<noteq> ''repair'' \<and> action \<noteq> ''extinguish'' \<and> action \<noteq> ''boost_morale''
      \<and> action \<noteq> ''emergency_rations'' \<and> take 5 action \<noteq> ''build'' \<longrightarrow>
      process_action s action rs = (s, rs) \<and> advance_turn s action rs = advance_turn s ''wait'' rs)
   \<and> (sectors s \<noteq> [] \<longrightarrow> (\<exists>y. advance_turn s action rs = Inr y))"
  using advance_turn_returns [of s action rs]
  by (simp add: process_action_def advance_turn_def turn_until_pacing_def)

text \<open>C6 (amended) at the fresh world and the action "dance".\<close>

theorem unrecognized_action_is_wait_witness:
  "''dance'' \<noteq> ''repair'' \<and> ''dance'' \<noteq> ''extinguish'' \<and> ''dance'' \<noteq> ''boost_morale''
   \<and> ''dance'' \<noteq> ''emergency_rations'' \<and> take 5 ''dance'' \<noteq> ''build''
   \<and> process_action fresh ''dance'' [0.99, 0.99] = (fresh, [0.99, 0.99])
   \<and> advance_turn fresh ''dance'' [0.99, 0.99] = advance_turn fresh ''wait'' [0.99, 0.99]
   \<and> sectors fresh \<noteq> [] \<and> (\<exists>y. advance_turn fresh ''dance'' [0.99, 0.99] = Inr y)"
proof -
  have a: "''dance'' \<noteq> ''repair'' \<and> ''dance'' \<noteq> ''extinguish'' \<and> ''dance'' \<noteq> ''boost_morale''
      \<and> ''dance'' \<noteq> ''emergency_rations'' \<and> take 5 ''dance'' \<noteq> ''build''"
    by code_simp
  have b: "sectors fresh \<noteq> []" by (simp add: fresh_eq)
  from unrecognized_action_is_wait [of "''dance''" fresh "[0.99, 0.99]"] a b show ?thesis
    by blast
qed

text \<open>
  C6 as stated fails: "build" is outside the documented tags and is not treated as
  "wait"; it builds a Housing sector and spends 80 materials.
\<close>

theorem unrecognized_build_counterexample:
  "''build'' \<notin> set [''wait'', ''repair'', ''extinguish'', ''build_farm'', ''build_power'',
      ''build_industry'', ''build_housing'', ''boost_morale'', ''emergency_rations'']
   \<and> advance_turn fresh ''build'' [0.99, 0.99, 0.99] \<noteq> advance_turn fresh ''wait'' [0.99, 0.99, 0.99]
   \<and> (case advance_turn fresh ''build'' [0.99, 0.99, 0.99] of Inl e \<Rightarrow> False
       | Inr (s', rs') \<Rightarrow> length (sectors s') = 9 \<and> materials s' = 16)
   \<and> (case advance_turn fresh ''wait'' [0.99, 0.99, 0.99] of Inl e \<Rightarrow> False
       | Inr (s', rs') \<Rightarrow> length (sectors s') = 8 \<and> materials s' = 96)"
  using build_turn wait_turn
  by (auto split: sum.splits)

text \<open>
  C7 (the code at population 30). When emergency_rations fails its precondition the
  action phase returns the state untouched, log included: no rejection is recorded,
  unlike the failing branches of repair, extinguish, build and boost_morale.
\<close>

theorem rations_rejection_not_logged:
  "population hungry \<le> 30
   \<and> process_action hungry ''emergency_rations'' [] = (hungry, [])
   \<and> events (fst (process_action hungry ''emergency_rations'' [])) = events hungry"
  by (simp add: hungry_def fresh_eq process_action_def action_emergency_rations_def)

text \<open>
  C8. In every state reachable from a freshly created world by turns (and dilemma
  choices and cursor moves), no two sectors share a level and the number of sectors is
  at most \<open>max_height\<close>.
\<close>

theorem reachable_levels_unique:
  "reachable s \<Longrightarrow> distinct (map level (sectors s)) \<and> int (length (sectors s)) \<le> max_height s"
  using reachable_tower_ok [of s] tower_ok_distinct [of s] by (simp add: tower_ok_def)

text \<open>C8 at the state reached by building a ninth level.\<close>

theorem reachable_levels_unique_witness:
  "\<exists>s' rs'. advance_turn fresh ''build'' [0.99, 0.99, 0.99] = Inr (s', rs') \<and> reachable s'
     \<and> length (sectors s') = 9
     \<and> distinct (map level (sectors s')) \<and> int (length (sectors s')) \<le> max_height s'"
proof -
  from build_turn obtain s' rs' where t: "advance_turn fresh ''build'' [0.99, 0.99, 0.99] = Inr (s', rs')"
    and l: "length (sectors s') = 9"
    by (auto split: sum.splits)
  have "reachable fresh" unfolding fresh_def by (rule reachable.created)
  then have r: "reachable s'" using t by (rule reachable.turn)
  from reachable_levels_unique [OF r] t l r show ?thesis by blast
qed



text \<open>
  C10. Nothing clamps morale: every operation that writes it adds or subtracts a
  constant. The festival adds 30 when affordable, emergency rations subtract 20,
  starvation 25, blackout 15, an earthquake 20, the plague 30, a riot 25, an evacuation
  15, and recovery adds 1.5 below 60; the pacing phase passes the crisis penalty on
  unchanged, and the morale after a whole turn is the morale before plus the action's
  change, minus the starvation and blackout penalties, plus the recovery, minus the
  penalty of the crisis drawn, with no bound applied anywhere. Some reachable state
  with morale above 70 has morale above 100 after \<open>advance_turn "boost_morale"\<close>; and
  some reachable state has morale at least 0 before the turn and before its pacing
  phase, has the plague drawn in that phase, and ends the turn 30 lower, below 0.
\<close>

theorem morale_unclamped:
  "morale (fst (process_action s action rs)) =
     (if action = ''boost_morale'' \<and> food s \<ge> 40 \<and> power s \<ge> 20 then morale s + 30
      else if action = ''emergency_rations'' \<and> population s > 30 then morale s - 20
      else morale s)
   \<and> morale (starvation s) = (if food s < 0 then morale s - 25 else morale s)
   \<and> morale (fst (blackout s rs)) = (if power s < 0 then morale s - 15 else morale s)
   \<and> morale (morale_recovery s) = (if morale s < 60 then morale s + 1.5 else morale s)
   \<and> morale (fst (crisis_earthquake s rs)) = morale s - 20
   \<and> morale (fst (crisis_disease s rs)) = morale s - 30
   \<and> (\<forall>c rc. crisis_riot s rs = Inr (c, rc) \<longrightarrow> morale c = morale s - 25)
   \<and> morale (consequence_b d s) = morale s - 15
   \<and> (\<forall>p rp. tension_pacing s rs = Inr (p, rp) \<longrightarrow>
        (let (due, r1) = crisis_due (s\<lparr>tension := tension s + 2.5\<rparr>) rs
         in morale p = morale s - (if due then [20, 0, 30, 0, 25] ! fst (random_below 5 r1) else 0)))
   \<and> morale (fst (turn_until_pacing s action rs)) =
       (let s1 = fst (if action \<noteq> ''wait'' then process_action (advance_time s) action rs
                      else (advance_time s, rs));
            c = consumption_phase (production_phase s1);
            m = morale s1 - (if food c < 0 then 25 else 0) - (if power c < 0 then 15 else 0)
        in if m < 60 then m + 1.5 else m)
   \<and> (\<forall>s' rs'. advance_turn s action rs = Inr (s', rs') \<longrightarrow>
        (let (m, rm) = turn_until_pacing s action rs;
             (due, r1) = crisis_due (m\<lparr>tension := tension m + 2.5\<rparr>) rm
         in morale s' = morale m - (if due then [20, 0, 30, 0, 25] ! fst (random_below 5 r1) else 0)))
   \<and> (\<exists>s0 rs0 s1 rs1. reachable s0 \<and> food s0 \<ge> 40 \<and> power s0 \<ge> 20 \<and> morale s0 > 70
         \<and> advance_turn s0 ''boost_morale'' rs0 = Inr (s1, rs1) \<and> morale s1 > 100)
   \<and> (\<exists>s0 rs0 s1 rs1. reachable s0 \<and> advance_turn s0 ''wait'' rs0 = Inr (s1, rs1)
         \<and> (let (m, rm) = turn_until_pacing s0 ''wait'' rs0;
                 (due, r1) = crisis_due (m\<lparr>tension := tension m + 2.5\<rparr>) rm
             in 0 \<le> morale s0 \<and> 0 \<le> morale m \<and> due \<and> fst (random_below 5 r1) = 2
                \<and> morale s1 = morale m - 30 \<and> morale s1 < 0))"
proof (intro conjI allI impI)
  show "morale (fst (process_action s action rs)) =
     (if action = ''boost_morale'' \<and> food s \<ge> 40 \<and> power s \<ge> 20 then morale s + 30
      else if action = ''emergency_rations'' \<and> population s > 30 then morale s - 20
      else morale s)"
    by (rule process_action_morale)
  show "morale (starvation s) = (if food s < 0 then morale s - 25 else morale s)"
    by (rule starvation_morale)
  show "morale (fst (blackout s rs)) = (if power s < 0 then morale s - 15 else morale s)"
    by (rule blackout_morale)
  show "morale (morale_recovery s) = (if morale s < 60 then morale s + 1.5 else morale s)"
    by (rule morale_recovery_morale)
  show "morale (fst (crisis_earthquake s rs)) = morale s - 20"
    by (rule crisis_earthquake_morale)
  show "morale (fst (crisis_disease s rs)) = morale s - 30"
    by (rule crisis_disease_morale)
  show "morale c = morale s - 25" if "crisis_riot s rs = Inr (c, rc)" for c rc
    using that by (rule crisis_riot_morale)
  show "morale (consequence_b d s) = morale s - 15"
    by (rule consequence_morale(2))
  show "let (due, r1) = crisis_due (s\<lparr>tension := tension s + 2.5\<rparr>) rs
         in morale p = morale s - (if due then [20, 0, 30, 0, 25] ! fst (random_below 5 r1) else 0)"
    if "tension_pacing s rs = Inr (p, rp)" for p rp
    using tension_pacing_morale [OF that] by (simp add: split_beta)
  show "morale (fst (turn_until_pacing s action rs)) =
       (let s1 = fst (if action \<noteq> ''wait'' then process_action (advance_time s) action rs
                      else (advance_time s, rs));
            c = consumption_phase (production_phase s1);
            m = morale s1 - (if food c < 0 then 25 else 0) - (if power c < 0 then 15 else 0)
        in if m < 60 then m + 1.5 else m)"
    by (rule turn_until_pacing_morale)
  show "let (m, rm) = turn_until_pacing s action rs;
             (due, r1) = crisis_due (m\<lparr>tension := tension m + 2.5\<rparr>) rm
         in morale s' = morale m - (if due then [20, 0, 30, 0, 25] ! fst (random_below 5 r1) else 0)"
    if "advance_turn s action rs = Inr (s', rs')" for s' rs'
    using that by (rule advance_turn_morale)
  obtain s0 rs0
    where p: "play [''boost_morale''] fresh [0, 0.75, 0.99, 0.99, 0, 0.99, 0.99] = Inr (s0, rs0)"
      and v: "morale s0 = 95" "food s0 = 165" "power s0 = 77"
      and c: "case advance_turn s0 ''boost_morale'' rs0 of Inl e \<Rightarrow> False
            | Inr (s1, rs1) \<Rightarrow> morale s1 = 125"
    using festival_run
    by (cases "play [''boost_morale''] fresh [0, 0.75, 0.99, 0.99, 0, 0.99, 0.99]") auto
  obtain s1 rs1 where t: "advance_turn s0 ''boost_morale'' rs0 = Inr (s1, rs1)" and m: "morale s1 = 125"
    using c by (cases "advance_turn s0 ''boost_morale'' rs0") auto
  have "reachable s0" using reachable_fresh p by (rule reachable_play)
  with v t m show "\<exists>s0 rs0 s1 rs1. reachable s0 \<and> food s0 \<ge> 40 \<and> power s0 \<ge> 20 \<and> morale s0 > 70
         \<and> advance_turn s0 ''boost_morale'' rs0 = Inr (s1, rs1) \<and> morale s1 > 100"
    by (intro exI [of _ s0] exI [of _ rs0] exI [of _ s1] exI [of _ rs1]) simp
  let ?acts = "[''emergency_rations'', ''emergency_rations'', ''emergency_rations'',
       ''wait'', ''wait'', ''wait'', ''wait'', ''wait'']"
  let ?tape = "[0.99, 0.99,  0, 0.99, 0.99,  0, 0.99, 0.99,  0, 0.99, 0.99, 0, 0.99, 0.99, 0, 0.99, 0.99,
      0, 0.99, 0.99, 0, 0.99, 0.99, 0, 0, 0.5, 0, 0.99, 0.99] :: real list"
  obtain q0 qs0
    where p: "play ?acts fresh ?tape = Inr (q0, qs0)"
      and v: "morale q0 = 17"
      and u: "case turn_until_pacing q0 ''wait'' qs0 of (m, rm) \<Rightarrow> morale m = 18.5
             \<and> (case crisis_due (m\<lparr>tension := tension m + 2.5\<rparr>) rm of (due, r1) \<Rightarrow>
                   due \<and> fst (random_below 5 r1) = 2)"
      and c: "case advance_turn q0 ''wait'' qs0 of Inl e \<Rightarrow> False
            | Inr (s1, rs1) \<Rightarrow> morale s1 = - 11.5"
    using plague_run
    by (cases "play ?acts fresh ?tape") auto
  obtain q1 qs1 where t: "advance_turn q0 ''wait'' qs0 = Inr (q1, qs1)" and m: "morale q1 = - 11.5"
    using c by (cases "advance_turn q0 ''wait'' qs0") auto
  have "reachable q0" using reachable_fresh p by (rule reachable_play)
  with v u t m show "\<exists>s0 rs0 s1 rs1. reachable s0 \<and> advance_turn s0 ''wait'' rs0 = Inr (s1, rs1)
         \<and> (let (m, rm) = turn_until_pacing s0 ''wait'' rs0;
                 (due, r1) = crisis_due (m\<lparr>tension := tension m + 2.5\<rparr>) rm
             in 0 \<le> morale s0 \<and> 0 \<le> morale m \<and> due \<and> fst (random_below 5 r1) = 2
                \<and> morale s1 = morale m - 30 \<and> morale s1 < 0)"
    by (intro exI [of _ q0] exI [of _ qs0] exI [of _ q1] exI [of _ qs1]) (simp add: split_beta)
qed

text \<open>
  C10 at concrete states: the fresh world, one with empty pools and morale 50, one whose
  crisis is due, and one with a dilemma pending.
\<close>

theorem morale_unclamped_witness:
  "food fresh \<ge> 40 \<and> power fresh \<ge> 20 \<and> population fresh > 30
   \<and> morale (fst (process_action fresh ''boost_morale'' [])) = 95
   \<and> morale (fst (process_action fresh ''emergency_rations'' [])) = 45
   \<and> food depleted < 0 \<and> power depleted < 0 \<and> morale depleted < 60
   \<and> morale (starvation depleted) = 25 \<and> morale (fst (blackout depleted [])) = 35
   \<and> morale (morale_recovery depleted) = 51.5
   \<and> morale (fst (crisis_earthquake overdue [])) = 45
   \<and> morale (fst (crisis_disease overdue [])) = 35
   \<and> morale (consequence_b level5_dilemma stuck) = 50
   \<and> (\<exists>c rc. crisis_riot overdue [0, 0] = Inr (c, rc) \<and> morale c = 40)
   \<and> (\<exists>p rp. tension_pacing overdue [0, 0.5, 0] = Inr (p, rp) \<and> morale p = 35)
   \<and> (\<exists>s' rs'. advance_turn overdue ''wait'' [0, 0.5, 0, 0.99, 0.99] = Inr (s', rs') \<and> morale s' = 35)"
proof -
  have a: "food fresh \<ge> 40 \<and> power fresh \<ge> 20 \<and> population fresh > 30 \<and> morale fresh = 65"
    by (simp add: fresh_eq)
  have b: "food depleted < 0 \<and> power depleted < 0 \<and> morale depleted < 60 \<and> morale depleted = 50"
    by (simp add: depleted_def)
  have o: "morale overdue = 65" by (simp add: overdue_def fresh_eq)
  have k: "morale stuck = 65" by (simp add: stuck_eq cracked_def fresh_eq)
  obtain c rc where r: "crisis_riot overdue [0, 0] = Inr (c, rc)"
    using overdue_crises(1) by (cases "crisis_riot overdue [0, 0]") auto
  obtain p rp where t: "tension_pacing overdue [0, 0.5, 0] = Inr (p, rp)" and tp: "morale p = 35"
    using overdue_crises(2) by (cases "tension_pacing overdue [0, 0.5, 0]") auto
  obtain s' rs' where w: "advance_turn overdue ''wait'' [0, 0.5, 0, 0.99, 0.99] = Inr (s', rs')"
    and ws: "morale s' = 35"
    using overdue_crises(3) by (cases "advance_turn overdue ''wait'' [0, 0.5, 0, 0.99, 0.99]") auto
  note f = morale_unclamped [of fresh "''boost_morale''" "[]" level5_dilemma]
  note g = morale_unclamped [of fresh "''emergency_rations''" "[]" level5_dilemma]
  note h = morale_unclamped [of depleted "''wait''" "[]" level5_dilemma]
  note i = morale_unclamped [of overdue "''wait''" "[]" level5_dilemma]
  note j = morale_unclamped [of overdue "''wait''" "[0, 0]" level5_dilemma]
  note l = morale_unclamped [of stuck "''wait''" "[]" level5_dilemma]
  have "morale (fst (process_action fresh ''boost_morale'' [])) = 95" using f a by simp
  moreover have "morale (fst (process_action fresh ''emergency_rations'' [])) = 45" using g a by simp
  moreover have "morale (starvation depleted) = 25 \<and> morale (fst (blackout depleted [])) = 35
      \<and> morale (morale_recovery depleted) = 51.5" using h b by simp
  moreover have "morale (fst (crisis_earthquake overdue [])) = 45
      \<and> morale (fst (crisis_disease overdue [])) = 35" using i o by simp
  moreover have "morale (consequence_b level5_dilemma stuck) = 50" using l k by simp
  moreover have "morale c = 40" using j r o by simp
  ultimately show ?thesis using a b r t tp w ws by blast
qed

end
